theory Spec2Isabelle
  imports Main "HOL-Library.Sublist"
begin

section \<open>JavaScript values\<close>

text \<open>
  The module \<^verbatim>\<open>src/lib/woo.ts\<close> passes request bodies and parsed responses around as
  \<^verbatim>\<open>any\<close>. They are modelled by the values of the JSON data model plus \<^verbatim>\<open>undefined\<close>.
  A string is a list of bytes (the UTF-8 encoding of well-formed text), an object is the
  list of its own properties in property order (keys distinct), and a number is an
  integer, standing for the double nearest to it; numbers with a fraction are outside
  this model. Values that \<^verbatim>\<open>JSON.stringify\<close> refuses (cyclic objects, big integers) are
  outside it as well.
\<close>

datatype jsval =
    JUndefined
  | JNull
  | JBool bool
  | JNum int
  | JStr string
  | JArr "jsval list"
  | JObj "(string \<times> jsval) list"

text \<open>What \<^verbatim>\<open>if (v)\<close>, \<^verbatim>\<open>!v\<close> and the callback of \<^verbatim>\<open>filter\<close> make of a value.\<close>

fun truthy :: "jsval \<Rightarrow> bool" where
  "truthy JUndefined = False"
| "truthy JNull = False"
| "truthy (JBool b) = b"
| "truthy (JNum n) = (n \<noteq> 0)"
| "truthy (JStr s) = (s \<noteq> [])"
| "truthy (JArr xs) = True"
| "truthy (JObj ps) = True"

text \<open>The errors an operation of the module can end with (a rejected promise).\<close>

datatype error =
    FetchFailed      \<comment> \<open>\<^verbatim>\<open>fetch\<close> rejected: no response was obtained\<close>
  | JSONSyntaxError  \<comment> \<open>\<^verbatim>\<open>res.json()\<close> rejected: the body is not valid JSON\<close>
  | TypeError        \<comment> \<open>a property of \<^verbatim>\<open>null\<close>/\<^verbatim>\<open>undefined\<close> was read, or a non-function called\<close>

text \<open>
  Reading a property \<^verbatim>\<open>v.k\<close>, for a name \<open>k\<close> that no built-in prototype defines (the
  module reads \<^verbatim>\<open>enabled\<close>, \<^verbatim>\<open>method_id\<close> and \<^verbatim>\<open>method_title\<close>): a \<^verbatim>\<open>TypeError\<close> on
  \<^verbatim>\<open>null\<close> and \<^verbatim>\<open>undefined\<close>, the own property of an object, \<^verbatim>\<open>undefined\<close> otherwise.
\<close>

fun get_prop :: "jsval \<Rightarrow> string \<Rightarrow> error + jsval" where
  "get_prop JUndefined k = Inl TypeError"
| "get_prop JNull k = Inl TypeError"
| "get_prop (JObj ps) k = Inr (case map_of ps k of None \<Rightarrow> JUndefined | Some v \<Rightarrow> v)"
| "get_prop v k = Inr JUndefined"

subsection \<open>Strings\<close>

text \<open>\<^verbatim>\<open>Array.prototype.join\<close> on strings.\<close>

fun join :: "string \<Rightarrow> string list \<Rightarrow> string" where
  "join sep [] = []"
| "join sep [x] = x"
| "join sep (x # y # ys) = x @ sep @ join sep (y # ys)"

text \<open>
  \<^verbatim>\<open>s.replace(pat, rep)\<close> with a string pattern: only the first occurrence of \<open>pat\<close> is
  replaced (\<open>rep\<close> holds no \<^verbatim>\<open>$\<close> here).
\<close>

fun replace_first :: "string \<Rightarrow> string \<Rightarrow> string \<Rightarrow> string" where
  "replace_first pat rep [] = (if pat = [] then rep else [])"
| "replace_first pat rep (c # cs) =
     (if prefix pat (c # cs) then rep @ drop (length pat) (c # cs)
      else c # replace_first pat rep cs)"

text \<open>Decimal digits of a natural number, most significant first.\<close>

fun digits :: "nat \<Rightarrow> string" where
  "digits n =
     (if n < 10 then [''0123456789'' ! n]
      else digits (n div 10) @ [''0123456789'' ! (n mod 10)])"

declare digits.simps [simp del]

subsection \<open>Numbers as text\<close>

text \<open>
  A JavaScript number is a double. \<open>JNum n\<close> and an integer parameter \<open>n\<close> stand for the
  double nearest to the integer \<open>n\<close>, which is \<open>n\<close> itself up to \<open>2^53\<close> in magnitude.
  For a magnitude \<open>m\<close> of more than 53 bits the nearest double keeps the leading 53 bits,
  rounded to nearest with ties to the even one; from \<open>2^1024\<close> on it is infinite.
\<close>

fun bit_length :: "nat \<Rightarrow> nat" where
  "bit_length m = (if m = 0 then 0 else Suc (bit_length (m div 2)))"

declare bit_length.simps [simp del]

definition round_at :: "nat \<Rightarrow> nat \<Rightarrow> nat" where
  "round_at e m =
     (if e = 0 then m
      else if 2 ^ e < 2 * (m mod 2 ^ e) \<or> (2 * (m mod 2 ^ e) = 2 ^ e \<and> odd (m div 2 ^ e))
        then (m div 2 ^ e + 1) * 2 ^ e
      else (m div 2 ^ e) * 2 ^ e)"

definition round_double :: "nat \<Rightarrow> nat" where
  "round_double m = round_at (bit_length m - 53) m"

definition is_finite :: "nat \<Rightarrow> bool" where
  "is_finite m = (round_double m < 2 ^ 1024)"

text \<open>
  The conversion of a number to a string writes the shortest decimal numeral that reads
  back as the same double, and of several such the nearest one (an even last digit on a
  tie). For the double \<open>x\<close> of \<open>d\<close> digits, \<open>shortest x d k\<close> looks for such a numeral of
  \<open>k\<close> digits followed by \<open>d - k\<close> zeros among the two that enclose \<open>x\<close>, \<open>below x t\<close> and
  \<open>below x t + 10 ^ t\<close>, and goes on to \<open>k + 1\<close> digits when neither reads back as \<open>x\<close>;
  with \<open>d\<close> digits \<open>x\<close> itself does.
\<close>

definition below :: "nat \<Rightarrow> nat \<Rightarrow> nat" where
  "below x t = (x div 10 ^ t) * 10 ^ t"

definition nearer :: "nat \<Rightarrow> nat \<Rightarrow> nat \<Rightarrow> nat" where
  "nearer x t lo =
     (if round_double lo = x \<and> round_double (lo + 10 ^ t) = x then
        (if x - lo < lo + 10 ^ t - x then lo
         else if lo + 10 ^ t - x < x - lo then lo + 10 ^ t
         else if even (lo div 10 ^ t) then lo else lo + 10 ^ t)
      else if round_double lo = x then lo
      else lo + 10 ^ t)"

function shortest :: "nat \<Rightarrow> nat \<Rightarrow> nat \<Rightarrow> nat" where
  "shortest x d k =
     (if d \<le> k then x
      else if round_double (below x (d - k)) = x \<or> round_double (below x (d - k) + 10 ^ (d - k)) = x
        then nearer x (d - k) (below x (d - k))
      else shortest x d (Suc k))"
  by pat_completeness auto
termination
  by (relation "measure (\<lambda>(x, d, k). d - k)") auto

declare shortest.simps [simp del]

text \<open>A numeral without its trailing zeros.\<close>

definition significant :: "string \<Rightarrow> string" where
  "significant ds = rev (dropWhile (\<lambda>c. c = CHR ''0'') (rev ds))"

text \<open>
  The numeral in exponent notation: its significant digits, with a point after the first
  when there are more, and the exponent.
\<close>

definition exponential :: "string \<Rightarrow> string" where
  "exponential ds =
     (case significant ds of
        [] \<Rightarrow> []
      | [c] \<Rightarrow> [c]
      | c # cs \<Rightarrow> c # CHR ''.'' # cs)
     @ ''e+'' @ digits (length ds - 1)"

text \<open>
  The text of a finite double that is an integer: its shortest numeral, in full up to 21
  digits and in exponent notation from 22 digits on.
\<close>

definition double_text :: "nat \<Rightarrow> string" where
  "double_text x =
     (if length (digits (shortest x (length (digits x)) 1)) \<le> 21
      then digits (shortest x (length (digits x)) 1)
      else exponential (digits (shortest x (length (digits x)) 1)))"

definition magnitude_text :: "nat \<Rightarrow> string" where
  "magnitude_text m =
     (if m = 0 then ''0''
      else if is_finite m then double_text (round_double m)
      else ''Infinity'')"

text \<open>\<^verbatim>\<open>`${n}`\<close> for an integer \<open>n\<close>.\<close>

definition Number_toString :: "int \<Rightarrow> string" where
  "Number_toString n =
     (if n < 0 then CHR ''-'' # magnitude_text (nat (- n)) else magnitude_text (nat n))"

text \<open>
  \<^verbatim>\<open>`${v}`\<close> and the conversion of an argument to a string, for a value that is a string
  or missing: \<^verbatim>\<open>undefined\<close> becomes the nine characters \<^verbatim>\<open>undefined\<close>.
\<close>

definition ToString :: "string option \<Rightarrow> string" where
  "ToString v = (case v of None \<Rightarrow> ''undefined'' | Some s \<Rightarrow> s)"

subsection \<open>\<^verbatim>\<open>JSON.stringify\<close>\<close>

definition hex_lower :: "nat \<Rightarrow> char" where
  "hex_lower n = ''0123456789abcdef'' ! n"

definition json_escape :: "char \<Rightarrow> string" where
  "json_escape c =
     (if c = CHR 0x22 then [CHR 0x5C, CHR 0x22]
      else if c = CHR 0x5C then [CHR 0x5C, CHR 0x5C]
      else if c = CHR 0x08 then [CHR 0x5C, CHR ''b'']
      else if c = CHR 0x09 then [CHR 0x5C, CHR ''t'']
      else if c = CHR 0x0A then [CHR 0x5C, CHR ''n'']
      else if c = CHR 0x0C then [CHR 0x5C, CHR ''f'']
      else if c = CHR 0x0D then [CHR 0x5C, CHR ''r'']
      else if (of_char c :: nat) < 32
        then [CHR 0x5C, CHR ''u'', CHR ''0'', CHR ''0'',
              hex_lower (of_char c div 16), hex_lower (of_char c mod 16)]
      else [c])"

definition QuoteJSONString :: "string \<Rightarrow> string" where
  "QuoteJSONString s = CHR 0x22 # concat (map json_escape s) @ [CHR 0x22]"

text \<open>
  The three serialisation procedures of the language standard, without replacer or
  indentation: a property whose value is \<^verbatim>\<open>undefined\<close> is left out of an object, and
  \<^verbatim>\<open>undefined\<close> in an array is written \<^verbatim>\<open>null\<close>.
\<close>

fun SerializeJSONProperty :: "jsval \<Rightarrow> string option"
  and SerializeJSONArray :: "jsval list \<Rightarrow> string list"
  and SerializeJSONObject :: "(string \<times> jsval) list \<Rightarrow> string list" where
  "SerializeJSONProperty JUndefined = None"
| "SerializeJSONProperty JNull = Some ''null''"
| "SerializeJSONProperty (JBool b) = Some (if b then ''true'' else ''false'')"
| "SerializeJSONProperty (JNum n) =
     Some (if is_finite (nat \<bar>n\<bar>) then Number_toString n else ''null'')"
| "SerializeJSONProperty (JStr s) = Some (QuoteJSONString s)"
| "SerializeJSONProperty (JArr xs) = Some (''['' @ join '','' (SerializeJSONArray xs) @ '']'')"
| "SerializeJSONProperty (JObj ps) = Some (''{'' @ join '','' (SerializeJSONObject ps) @ ''}'')"
| "SerializeJSONArray [] = []"
| "SerializeJSONArray (x # xs) =
     (case SerializeJSONProperty x of None \<Rightarrow> ''null'' | Some s \<Rightarrow> s) # SerializeJSONArray xs"
| "SerializeJSONObject [] = []"
| "SerializeJSONObject (p # ps) =
     (case SerializeJSONProperty (snd p) of
        None \<Rightarrow> SerializeJSONObject ps
      | Some s \<Rightarrow> (QuoteJSONString (fst p) @ '':'' @ s) # SerializeJSONObject ps)"

text \<open>\<^verbatim>\<open>JSON.stringify(v)\<close>: a string, or \<^verbatim>\<open>undefined\<close> for \<^verbatim>\<open>undefined\<close>.\<close>

definition JSON_stringify :: "jsval \<Rightarrow> jsval" where
  "JSON_stringify v = (case SerializeJSONProperty v of None \<Rightarrow> JUndefined | Some s \<Rightarrow> JStr s)"

subsection \<open>\<^verbatim>\<open>URLSearchParams\<close>\<close>

text \<open>A \<^verbatim>\<open>URLSearchParams\<close> object is its list of name-value pairs, in order.\<close>

type_synonym URLSearchParams = "(string \<times> string) list"

text \<open>
  \<^verbatim>\<open>query.set(name, value)\<close>: the first pair of that name takes the value and the other
  pairs of that name are removed; without such a pair, the pair is appended.
\<close>

fun set_first :: "string \<Rightarrow> string \<Rightarrow> URLSearchParams \<Rightarrow> URLSearchParams" where
  "set_first name v [] = []"
| "set_first name v (p # ps) =
     (if fst p = name then (name, v) # filter (\<lambda>p'. fst p' \<noteq> name) ps
      else p # set_first name v ps)"

definition URLSearchParams_set :: "string \<Rightarrow> string \<Rightarrow> URLSearchParams \<Rightarrow> URLSearchParams" where
  "URLSearchParams_set name v ps =
     (if name \<in> fst ` set ps then set_first name v ps else ps @ [(name, v)])"

text \<open>
  \<^verbatim>\<open>query.toString()\<close>, the \<^verbatim>\<open>application/x-www-form-urlencoded\<close> serialiser: a space
  becomes \<^verbatim>\<open>+\<close>; letters, digits and \<^verbatim>\<open>* - . _\<close> stay; every other byte becomes \<^verbatim>\<open>%\<close> and
  two upper-case hexadecimal digits.
\<close>

definition hex_upper :: "nat \<Rightarrow> char" where
  "hex_upper n = ''0123456789ABCDEF'' ! n"

definition urlencoded_plain :: "char \<Rightarrow> bool" where
  "urlencoded_plain c =
     (let n = (of_char c :: nat) in
        (48 \<le> n \<and> n \<le> 57) \<or> (65 \<le> n \<and> n \<le> 90) \<or> (97 \<le> n \<and> n \<le> 122)
        \<or> c = CHR ''*'' \<or> c = CHR ''-'' \<or> c = CHR ''.'' \<or> c = CHR ''_'')"

definition urlencode_byte :: "char \<Rightarrow> string" where
  "urlencode_byte c =
     (if c = CHR '' '' then ''+''
      else if urlencoded_plain c then [c]
      else [CHR ''%'', hex_upper (of_char c div 16), hex_upper (of_char c mod 16)])"

definition urlencode :: "string \<Rightarrow> string" where
  "urlencode s = concat (map urlencode_byte s)"

definition URLSearchParams_toString :: "URLSearchParams \<Rightarrow> string" where
  "URLSearchParams_toString ps = join ''&'' (map (\<lambda>p. urlencode (fst p) @ ''='' @ urlencode (snd p)) ps)"

section \<open>The module \<^verbatim>\<open>src/lib/woo.ts\<close>\<close>

subsection \<open>Credentials\<close>

text \<open>
  The three module-level constants (lines 3 to 5). \<open>None\<close> is \<^verbatim>\<open>undefined\<close>.
\<close>

record config =
  WOOCOMMERCE_URL :: "string option"
  CONSUMER_KEY :: "string option"
  CONSUMER_SECRET :: "string option"

text \<open>
  Loading the module evaluates \<^verbatim>\<open>process.env.X!!\<close> three times. \<^verbatim>\<open>process.env\<close> maps the
  names of the environment variables to strings, and a missing name reads as
  \<^verbatim>\<open>undefined\<close>. The postfix \<^verbatim>\<open>!\<close> is TypeScript's non-null assertion: it changes the
  static type only and is erased from the emitted JavaScript, so no statement of the
  module's top level can throw. The outcome is a sum so that a failure of the load could
  be expressed.
\<close>

definition module_init :: "(string \<rightharpoonup> string) \<Rightarrow> error + config" where
  "module_init env =
     Inr \<lparr>WOOCOMMERCE_URL = env ''WOOCOMMERCE_URL'',
          CONSUMER_KEY = env ''WOOCOMMERCE_CONSUMER_KEY'',
          CONSUMER_SECRET = env ''WOOCOMMERCE_CONSUMER_SECRET''\<rparr>"

subsection \<open>Requests, responses and the outside world\<close>

text \<open>The two arguments of \<^verbatim>\<open>fetch(url, init)\<close>, with \<^verbatim>\<open>init = {body, method, headers}\<close>.\<close>

record request =
  req_url :: string
  req_body :: jsval
  req_method :: string
  req_headers :: "(string \<times> string) list"

text \<open>
  A \<^verbatim>\<open>Response\<close>: its status code, and what \<^verbatim>\<open>res.json()\<close> resolves to (\<open>None\<close> when the
  body is not valid JSON, so that \<^verbatim>\<open>res.json()\<close> rejects).
\<close>

record response =
  res_status :: nat
  res_json :: "jsval option"

text \<open>
  The remote side: what \<^verbatim>\<open>fetch\<close> settles with for a request; \<open>Inl\<close> is a rejection.
\<close>

type_synonym network = "request \<Rightarrow> error + response"

text \<open>The effects of the module: the calls of \<^verbatim>\<open>fetch\<close> and the lines of \<^verbatim>\<open>console.log\<close>.\<close>

record world =
  fetched :: "request list"
  console :: "string list"

definition Response_json :: "response \<Rightarrow> error + jsval" where
  "Response_json res = (case res_json res of None \<Rightarrow> Inl JSONSyntaxError | Some v \<Rightarrow> Inr v)"

subsection \<open>\<^verbatim>\<open>call\<close> and its three wrappers\<close>

text \<open>Line 56: the URL before the query string is appended.\<close>

definition api_url :: "config \<Rightarrow> string \<Rightarrow> string" where
  "api_url cfg api =
     replace_first ''//'' ''/'' (ToString (WOOCOMMERCE_URL cfg) @ ''/wp-json/wc/v3/'' @ api)"

text \<open>The value \<^verbatim>\<open>init\<close> that line 67 serialises for the log.\<close>

definition init_value :: "request \<Rightarrow> jsval" where
  "init_value r =
     JObj [(''body'', req_body r), (''method'', JStr (req_method r)),
           (''headers'', JObj (map (\<lambda>h. (fst h, JStr (snd h))) (req_headers r)))]"

text \<open>
  Lines 51 to 70. The optional parameter \<open>query\<close> is \<open>None\<close> when the caller leaves it
  out, and a missing \<open>body\<close> is \<open>JUndefined\<close>.
\<close>

definition call ::
  "config \<Rightarrow> network \<Rightarrow> string \<Rightarrow> string \<Rightarrow> URLSearchParams option \<Rightarrow> jsval
     \<Rightarrow> world \<Rightarrow> (error + response) \<times> world" where
  "call cfg net method api query body w =
     (let headers = [(''Content-Type'', ''application/json'')];
          url = api_url cfg api;
          query = (case query of None \<Rightarrow> [] | Some q \<Rightarrow> q);
          query = URLSearchParams_set ''consumer_secret'' (ToString (CONSUMER_SECRET cfg)) query;
          query = URLSearchParams_set ''consumer_key'' (ToString (CONSUMER_KEY cfg)) query;
          url = url @ ''?'' @ URLSearchParams_toString query;
          body = (if truthy body then JSON_stringify body else body);
          init = \<lparr>req_url = url, req_body = body, req_method = method, req_headers = headers\<rparr>;
          line = ''Proxy woo: '' @ url @ '' | '' @ ToString (SerializeJSONProperty (init_value init))
      in (net init, w\<lparr>fetched := fetched w @ [init], console := console w @ [line]\<rparr>))"

definition put ::
  "config \<Rightarrow> network \<Rightarrow> string \<Rightarrow> jsval \<Rightarrow> URLSearchParams option
     \<Rightarrow> world \<Rightarrow> (error + response) \<times> world" where
  "put cfg net api body query = call cfg net ''PUT'' api query body"

definition post ::
  "config \<Rightarrow> network \<Rightarrow> string \<Rightarrow> jsval \<Rightarrow> URLSearchParams option
     \<Rightarrow> world \<Rightarrow> (error + response) \<times> world" where
  "post cfg net api body query = call cfg net ''POST'' api query body"

definition get ::
  "config \<Rightarrow> network \<Rightarrow> string \<Rightarrow> URLSearchParams option
     \<Rightarrow> world \<Rightarrow> (error + response) \<times> world" where
  "get cfg net api query = call cfg net ''GET'' api query JUndefined"

subsection \<open>Orders\<close>

definition createOrder ::
  "config \<Rightarrow> network \<Rightarrow> jsval list \<Rightarrow> string \<Rightarrow> world \<Rightarrow> (error + jsval) \<times> world" where
  "createOrder cfg net line_items customer_note w =
     (let body = JObj [(''set_paid'', JBool False),
                       (''line_items'', JArr line_items),
                       (''customer_note'', JStr customer_note)];
          (res, w') = post cfg net ''orders'' body None w
      in case res of
           Inl e \<Rightarrow> (Inl e, w')
         | Inr r \<Rightarrow> (Response_json r, w'))"

definition updateOrder ::
  "config \<Rightarrow> network \<Rightarrow> int \<Rightarrow> jsval \<Rightarrow> world \<Rightarrow> (error + response) \<times> world" where
  "updateOrder cfg net orderId update = put cfg net (''orders/'' @ Number_toString orderId) update None"

text \<open>
  Modelled from the spec: the type \<^verbatim>\<open>OrderInfo\<close> is imported from \<^verbatim>\<open>@telegraf/types\<close> and
  not declared in this repository. The spec's ContactInfo has a name, an email, a phone
  and an optional structured address (street lines, city, state, postal code, country
  code). The fields carry the names the module reads; each of the first three may also
  be missing, which the module handles like any other value.
\<close>

record ShippingAddress =
  country_code :: string
  state :: string
  city :: string
  street_line1 :: string
  street_line2 :: string
  post_code :: string

record OrderInfo =
  name :: "string option"
  phone_number :: "string option"
  email :: "string option"
  shipping_address :: "ShippingAddress option"

text \<open>A field that may be missing, as a value.\<close>

definition field :: "string option \<Rightarrow> jsval" where
  "field v = (case v of None \<Rightarrow> JUndefined | Some s \<Rightarrow> JStr s)"

text \<open>\<^verbatim>\<open>orderInfo.shipping_address?.f\<close>: \<^verbatim>\<open>undefined\<close> when there is no address.\<close>

definition address_field :: "OrderInfo \<Rightarrow> (ShippingAddress \<Rightarrow> string) \<Rightarrow> jsval" where
  "address_field orderInfo f = field (map_option f (shipping_address orderInfo))"

definition updateOrderInfo ::
  "config \<Rightarrow> network \<Rightarrow> int \<Rightarrow> OrderInfo \<Rightarrow> world \<Rightarrow> (error + response) \<times> world" where
  "updateOrderInfo cfg net orderId orderInfo =
     (let update = JObj
        [(''shipping'', JObj
           [(''first_name'', field (name orderInfo)),
            (''last_name'', field (name orderInfo)),
            (''address_1'', address_field orderInfo street_line1),
            (''address_2'', address_field orderInfo street_line2),
            (''city'', address_field orderInfo city),
            (''state'', address_field orderInfo state),
            (''postcode'', address_field orderInfo post_code),
            (''country'', address_field orderInfo country_code)]),
         (''billing'', JObj
           [(''first_name'', field (name orderInfo)),
            (''last_name'', field (name orderInfo)),
            (''email'', field (email orderInfo)),
            (''phone'', field (phone_number orderInfo)),
            (''address_1'', address_field orderInfo street_line1),
            (''address_2'', address_field orderInfo street_line2),
            (''city'', address_field orderInfo city),
            (''state'', address_field orderInfo state),
            (''postcode'', address_field orderInfo post_code),
            (''country'', address_field orderInfo country_code)])]
      in updateOrder cfg net orderId update)"

definition setOrderPaid ::
  "config \<Rightarrow> network \<Rightarrow> int \<Rightarrow> world \<Rightarrow> (error + response) \<times> world" where
  "setOrderPaid cfg net orderId =
     (let update = JObj [(''set_paid'', JBool True)]
      in updateOrder cfg net orderId update)"

subsection \<open>Shipping options\<close>

text \<open>
  \<^verbatim>\<open>methods.filter((method) => method.enabled)\<close> on the elements of an array: the callback
  runs on every element in order, and the first one that throws ends the whole call.
\<close>

fun filter_enabled :: "jsval list \<Rightarrow> error + jsval list" where
  "filter_enabled [] = Inr []"
| "filter_enabled (method # methods) =
     (case get_prop method ''enabled'' of
        Inl e \<Rightarrow> Inl e
      | Inr flag \<Rightarrow>
          (case filter_enabled methods of
             Inl e \<Rightarrow> Inl e
           | Inr kept \<Rightarrow> Inr (if truthy flag then method # kept else kept)))"

text \<open>The callback of \<^verbatim>\<open>map\<close> (lines 140 to 146).\<close>

definition shipping_option :: "jsval \<Rightarrow> error + jsval" where
  "shipping_option method =
     (case get_prop method ''method_id'' of
        Inl e \<Rightarrow> Inl e
      | Inr method_id \<Rightarrow>
          (case get_prop method ''method_title'' of
             Inl e \<Rightarrow> Inl e
           | Inr method_title \<Rightarrow>
               Inr (JObj [(''id'', method_id),
                          (''title'', method_title),
                          (''prices'', JArr [JObj [(''label'', JStr ''Free''),
                                                   (''amount'', JNum 0)]])])))"

fun map_shipping_option :: "jsval list \<Rightarrow> error + jsval list" where
  "map_shipping_option [] = Inr []"
| "map_shipping_option (method # methods) =
     (case shipping_option method of
        Inl e \<Rightarrow> Inl e
      | Inr opt \<Rightarrow>
          (case map_shipping_option methods of
             Inl e \<Rightarrow> Inl e
           | Inr opts \<Rightarrow> Inr (opt # opts)))"

text \<open>
  Lines 139 to 146 on the parsed body. \<^verbatim>\<open>methods.filter\<close> is a function only when
  \<open>methods\<close> is an array: on \<^verbatim>\<open>null\<close> the property read throws, and on any other JSON
  value the property is not a function, so the call throws.
\<close>

definition options_of_methods :: "jsval \<Rightarrow> error + jsval list" where
  "options_of_methods methods =
     (case methods of
        JArr ms \<Rightarrow>
          (case filter_enabled ms of
             Inl e \<Rightarrow> Inl e
           | Inr kept \<Rightarrow> map_shipping_option kept)
      | _ \<Rightarrow> Inl TypeError)"

definition getShippingOptions ::
  "config \<Rightarrow> network \<Rightarrow> int \<Rightarrow> world \<Rightarrow> (error + jsval list) \<times> world" where
  "getShippingOptions cfg net zoneId w =
     (let (res, w') = get cfg net (''shipping/zones/'' @ Number_toString zoneId @ ''/methods'') None w
      in case res of
           Inl e \<Rightarrow> (Inl e, w')
         | Inr r \<Rightarrow>
             (case Response_json r of
                Inl e \<Rightarrow> (Inl e, w')
              | Inr methods \<Rightarrow> (options_of_methods methods, w')))"

subsection \<open>Customers\<close>

definition createUser ::
  "config \<Rightarrow> network \<Rightarrow> OrderInfo \<Rightarrow> world \<Rightarrow> (error + jsval) \<times> world" where
  "createUser cfg net orderInfo w =
     (let body = JObj
        [(''email'', field (email orderInfo)),
         (''first_name'', field (name orderInfo)),
         (''last_name'', field (name orderInfo)),
         (''username'', field (name orderInfo)),
         (''shipping'', JObj
           [(''first_name'', field (name orderInfo)),
            (''last_name'', field (name orderInfo)),
            (''address_1'', address_field orderInfo street_line1),
            (''address_2'', address_field orderInfo street_line2),
            (''city'', address_field orderInfo city),
            (''state'', address_field orderInfo state),
            (''postcode'', address_field orderInfo post_code),
            (''country'', address_field orderInfo country_code)]),
         (''billing'', JObj
           [(''first_name'', field (name orderInfo)),
            (''last_name'', field (name orderInfo)),
            (''email'', field (email orderInfo)),
            (''phone'', field (phone_number orderInfo)),
            (''address_1'', address_field orderInfo street_line1),
            (''address_2'', address_field orderInfo street_line2),
            (''city'', address_field orderInfo city),
            (''state'', address_field orderInfo state),
            (''postcode'', address_field orderInfo post_code),
            (''country'', address_field orderInfo country_code)])];
          (res, w') = post cfg net ''customers'' body None w
      in case res of
           Inl e \<Rightarrow> (Inl e, w')
         | Inr r \<Rightarrow> (Response_json r, w'))"

subsection \<open>The exported object\<close>

text \<open>
  Lines 189 to 191: the default export \<^verbatim>\<open>woo\<close> has six members, the only operations a
  caller can reach. A call of one of them is a value of \<open>operation\<close>, and \<open>woo\<close> runs it.
\<close>

datatype operation =
    Get string "URLSearchParams option"
  | CreateOrder "jsval list" string
  | CreateUser OrderInfo
  | UpdateOrderInfo int OrderInfo
  | SetOrderPaid int
  | GetShippingOptions int

datatype result =
    Raw response
  | Parsed jsval
  | Options "jsval list"

fun woo :: "config \<Rightarrow> network \<Rightarrow> operation \<Rightarrow> world \<Rightarrow> (error + result) \<times> world" where
  "woo cfg net (Get api query) w = apfst (map_sum id Raw) (get cfg net api query w)"
| "woo cfg net (CreateOrder line_items customer_note) w =
     apfst (map_sum id Parsed) (createOrder cfg net line_items customer_note w)"
| "woo cfg net (CreateUser orderInfo) w = apfst (map_sum id Parsed) (createUser cfg net orderInfo w)"
| "woo cfg net (UpdateOrderInfo orderId orderInfo) w =
     apfst (map_sum id Raw) (updateOrderInfo cfg net orderId orderInfo w)"
| "woo cfg net (SetOrderPaid orderId) w = apfst (map_sum id Raw) (setOrderPaid cfg net orderId w)"
| "woo cfg net (GetShippingOptions zoneId) w =
     apfst (map_sum id Options) (getShippingOptions cfg net zoneId w)"

section \<open>What a request carries\<close>

text \<open>
  The recipient of a request reads its URL as the URL standard prescribes: the fragment
  starts at the first \<^verbatim>\<open>#\<close> and is not part of the request, and the query is what stands
  between the first \<^verbatim>\<open>?\<close> before the fragment and the fragment. The query is a list of
  pairs in the \<^verbatim>\<open>application/x-www-form-urlencoded\<close> format: pieces separated by \<^verbatim>\<open>&\<close>,
  empty pieces skipped, each piece split at its first \<^verbatim>\<open>=\<close>, with \<^verbatim>\<open>+\<close> read as a space
  and \<^verbatim>\<open>%\<close> with two hexadecimal digits read as a byte.
\<close>

definition url_query :: "string \<Rightarrow> string option" where
  "url_query u =
     (let before_fragment = takeWhile (\<lambda>c. c \<noteq> CHR ''#'') u
      in if CHR ''?'' \<in> set before_fragment
         then Some (tl (dropWhile (\<lambda>c. c \<noteq> CHR ''?'') before_fragment))
         else None)"

definition unhex :: "char \<Rightarrow> nat option" where
  "unhex c =
     (let n = (of_char c :: nat) in
        if 48 \<le> n \<and> n \<le> 57 then Some (n - 48)
        else if 65 \<le> n \<and> n \<le> 70 then Some (n - 55)
        else if 97 \<le> n \<and> n \<le> 102 then Some (n - 87)
        else None)"

fun urldecode :: "string \<Rightarrow> string" where
  "urldecode [] = []"
| "urldecode (c # cs) =
     (if c = CHR ''+'' then CHR '' '' # urldecode cs
      else if c = CHR ''%'' then
        (case cs of
           h # l # rest \<Rightarrow>
             (case (unhex h, unhex l) of
                (Some a, Some b) \<Rightarrow> char_of (16 * a + b) # urldecode rest
              | _ \<Rightarrow> c # urldecode cs)
         | _ \<Rightarrow> c # urldecode cs)
      else c # urldecode cs)"

fun split_on :: "char \<Rightarrow> string \<Rightarrow> string list" where
  "split_on d [] = [[]]"
| "split_on d (c # cs) =
     (if c = d then [] # split_on d cs
      else (case split_on d cs of [] \<Rightarrow> [[c]] | s # ss \<Rightarrow> (c # s) # ss))"

definition parse_pair :: "string \<Rightarrow> string \<times> string" where
  "parse_pair piece =
     (let n = takeWhile (\<lambda>c. c \<noteq> CHR ''='') piece
      in (urldecode n, urldecode (drop (length n + 1) piece)))"

definition parse_urlencoded :: "string \<Rightarrow> URLSearchParams" where
  "parse_urlencoded s = map parse_pair (filter (\<lambda>piece. piece \<noteq> []) (split_on CHR ''&'' s))"

text \<open>The query parameters a request URL carries; none when the URL has no query.\<close>

definition query_params :: "string \<Rightarrow> URLSearchParams" where
  "query_params u = (case url_query u of None \<Rightarrow> [] | Some q \<Rightarrow> parse_urlencoded q)"

text \<open>The pairs of a given name, in order.\<close>

definition named :: "string \<Rightarrow> URLSearchParams \<Rightarrow> URLSearchParams" where
  "named n ps = filter (\<lambda>p. fst p = n) ps"

text \<open>The pairs that are neither of the two credentials, in order.\<close>

definition others :: "URLSearchParams \<Rightarrow> URLSearchParams" where
  "others ps = filter (\<lambda>p. fst p \<noteq> ''consumer_key'' \<and> fst p \<noteq> ''consumer_secret'') ps"

text \<open>
  The decimal numeral of an integer, as the recipient expects an order id in the path of
  a URL: a minus sign for a negative number, then the digits of the magnitude.
\<close>

definition decimal :: "int \<Rightarrow> string" where
  "decimal n = (if n < 0 then CHR ''-'' # digits (nat (- n)) else digits (nat n))"

text \<open>
  Reading a decimal numeral, digit by digit from the left; a text that is not a numeral
  has no value.
\<close>

definition digit_value :: "char \<Rightarrow> nat option" where
  "digit_value c =
     (if (48::nat) \<le> of_char c \<and> (of_char c :: nat) \<le> 57 then Some (of_char c - 48) else None)"

fun read_digits :: "string \<Rightarrow> nat \<Rightarrow> nat option" where
  "read_digits [] acc = Some acc"
| "read_digits (c # cs) acc =
     (case digit_value c of None \<Rightarrow> None | Some v \<Rightarrow> read_digits cs (10 * acc + v))"

definition read_decimal :: "string \<Rightarrow> int option" where
  "read_decimal s =
     (case s of
        [] \<Rightarrow> None
      | c # cs \<Rightarrow>
          if c = CHR ''-'' then (if cs = [] then None else map_option (\<lambda>m. - int m) (read_digits cs 0))
          else map_option int (read_digits s 0))"

text \<open>A piece of URL text that starts neither a query nor a fragment.\<close>

definition url_plain :: "string \<Rightarrow> bool" where
  "url_plain s = (CHR ''?'' \<notin> set s \<and> CHR ''#'' \<notin> set s)"

text \<open>The endpoint text a caller of the exported object writes itself.\<close>

fun caller_endpoint :: "operation \<Rightarrow> string" where
  "caller_endpoint (Get api query) = api"
| "caller_endpoint _ = []"

text \<open>Lines 57 to 60: the parameters of the request, given those of the caller.\<close>

definition sent_query :: "config \<Rightarrow> URLSearchParams option \<Rightarrow> URLSearchParams" where
  "sent_query cfg query =
     URLSearchParams_set ''consumer_key'' (ToString (CONSUMER_KEY cfg))
       (URLSearchParams_set ''consumer_secret'' (ToString (CONSUMER_SECRET cfg))
         (case query of None \<Rightarrow> [] | Some q \<Rightarrow> q))"

text \<open>Lines 56 to 61: the URL handed to \<^verbatim>\<open>fetch\<close>.\<close>

definition sent_url :: "config \<Rightarrow> string \<Rightarrow> URLSearchParams option \<Rightarrow> string" where
  "sent_url cfg api query = api_url cfg api @ ''?'' @ URLSearchParams_toString (sent_query cfg query)"

text \<open>Lines 52 to 65: the request that \<^verbatim>\<open>call\<close> builds.\<close>

definition request_of ::
  "config \<Rightarrow> string \<Rightarrow> string \<Rightarrow> URLSearchParams option \<Rightarrow> jsval \<Rightarrow> request" where
  "request_of cfg method api query body =
     \<lparr>req_url = sent_url cfg api query,
      req_body = (if truthy body then JSON_stringify body else body),
      req_method = method,
      req_headers = [(''Content-Type'', ''application/json'')]\<rparr>"

text \<open>
  The properties of the objects that \<^verbatim>\<open>updateOrderInfo\<close> and \<^verbatim>\<open>createUser\<close> build: those
  of \<^verbatim>\<open>shipping\<close> and of \<^verbatim>\<open>billing\<close> as \<^verbatim>\<open>updateOrderInfo\<close> writes them (lines 102 to 123),
  and those of the body of \<^verbatim>\<open>createUser\<close> (lines 156 to 183) around them.
\<close>

definition shipping_fields :: "OrderInfo \<Rightarrow> (string \<times> jsval) list" where
  "shipping_fields orderInfo =
     [(''first_name'', field (name orderInfo)),
      (''last_name'', field (name orderInfo)),
      (''address_1'', address_field orderInfo street_line1),
      (''address_2'', address_field orderInfo street_line2),
      (''city'', address_field orderInfo city),
      (''state'', address_field orderInfo state),
      (''postcode'', address_field orderInfo post_code),
      (''country'', address_field orderInfo country_code)]"

definition billing_fields :: "OrderInfo \<Rightarrow> (string \<times> jsval) list" where
  "billing_fields orderInfo =
     [(''first_name'', field (name orderInfo)),
      (''last_name'', field (name orderInfo)),
      (''email'', field (email orderInfo)),
      (''phone'', field (phone_number orderInfo)),
      (''address_1'', address_field orderInfo street_line1),
      (''address_2'', address_field orderInfo street_line2),
      (''city'', address_field orderInfo city),
      (''state'', address_field orderInfo state),
      (''postcode'', address_field orderInfo post_code),
      (''country'', address_field orderInfo country_code)]"

definition user_fields :: "OrderInfo \<Rightarrow> (string \<times> jsval) list" where
  "user_fields orderInfo =
     [(''email'', field (email orderInfo)),
      (''first_name'', field (name orderInfo)),
      (''last_name'', field (name orderInfo)),
      (''username'', field (name orderInfo)),
      (''shipping'', JObj (shipping_fields orderInfo)),
      (''billing'', JObj (billing_fields orderInfo))]"

text \<open>The same remote side, answering with another status code.\<close>

definition with_status :: "nat \<Rightarrow> network \<Rightarrow> network" where
  "with_status code net = (\<lambda>r. map_sum id (\<lambda>res. res\<lparr>res_status := code\<rparr>) (net r))"

text \<open>The endpoint and the parameters each member of the exported object passes on.\<close>

fun endpoint :: "operation \<Rightarrow> string" where
  "endpoint (Get api query) = api"
| "endpoint (CreateOrder line_items customer_note) = ''orders''"
| "endpoint (CreateUser orderInfo) = ''customers''"
| "endpoint (UpdateOrderInfo orderId orderInfo) = ''orders/'' @ Number_toString orderId"
| "endpoint (SetOrderPaid orderId) = ''orders/'' @ Number_toString orderId"
| "endpoint (GetShippingOptions zoneId) = ''shipping/zones/'' @ Number_toString zoneId @ ''/methods''"

fun caller_query :: "operation \<Rightarrow> URLSearchParams option" where
  "caller_query (Get api query) = query"
| "caller_query _ = None"

text \<open>
  The value of a property of a value that is neither \<^verbatim>\<open>null\<close> nor \<^verbatim>\<open>undefined\<close>, where
  reading it cannot throw.
\<close>

definition prop_value :: "jsval \<Rightarrow> string \<Rightarrow> jsval" where
  "prop_value v k = (case get_prop v k of Inl e \<Rightarrow> JUndefined | Inr x \<Rightarrow> x)"

text \<open>The shipping option built from a method (lines 141 to 145), as a value.\<close>

definition projected :: "jsval \<Rightarrow> jsval" where
  "projected method =
     JObj [(''id'', prop_value method ''method_id''),
           (''title'', prop_value method ''method_title''),
           (''prices'', JArr [JObj [(''label'', JStr ''Free''), (''amount'', JNum 0)]])]"

subsection \<open>Example data\<close>

definition shop :: config where
  "shop = \<lparr>WOOCOMMERCE_URL = Some ''https://shop.example'',
           CONSUMER_KEY = Some ''ck_1'',
           CONSUMER_SECRET = Some ''cs_2''\<rparr>"

definition start :: world where
  "start = \<lparr>fetched = [], console = []\<rparr>"

text \<open>A remote side that answers every request with the same response.\<close>

definition answering :: "nat \<Rightarrow> jsval option \<Rightarrow> network" where
  "answering code body = (\<lambda>r. Inr \<lparr>res_status = code, res_json = body\<rparr>)"

definition alice :: OrderInfo where
  "alice = \<lparr>name = Some ''Alice'', phone_number = Some ''555'', email = Some ''alice@shop.example'',
            shipping_address = None\<rparr>"

text \<open>The same contact with an address, every field of it different.\<close>

definition alice_at_home :: OrderInfo where
  "alice_at_home = alice\<lparr>shipping_address :=
     Some \<lparr>country_code = ''NL'', state = ''NH'', city = ''Haarlem'',
           street_line1 = ''Grote Markt 2'', street_line2 = ''2nd floor'', post_code = ''2011 RD''\<rparr>\<rparr>"

definition flat_rate :: jsval where
  "flat_rate = JObj [(''method_id'', JStr ''flat''), (''method_title'', JStr ''Flat Rate''),
                     (''enabled'', JBool True)]"

section \<open>Lemmas: the query string\<close>

lemma nibble_cases:
  fixes k :: nat
  shows "k < 16 \<Longrightarrow>
    k = 15 \<or> k = 14 \<or> k = 13 \<or> k = 12 \<or> k = 11 \<or> k = 10 \<or> k = 9 \<or> k = 8 \<or>
    k = 7 \<or> k = 6 \<or> k = 5 \<or> k = 4 \<or> k = 3 \<or> k = 2 \<or> k = 1 \<or> k = 0"
  by arith

lemma unhex_hex_upper: "n < 16 \<Longrightarrow> unhex (hex_upper n) = Some n"
  by (drule nibble_cases) (elim disjE; simp add: hex_upper_def unhex_def)

lemma hex_upper_safe:
  "n < 16 \<Longrightarrow> hex_upper n \<noteq> CHR ''&'' \<and> hex_upper n \<noteq> CHR ''='' \<and> hex_upper n \<noteq> CHR ''#''"
  by (drule nibble_cases) (elim disjE; simp add: hex_upper_def)

lemma high_nibble: "(of_char (c::char) :: nat) div 16 < 16"
  by (simp add: less_mult_imp_div_less)

lemma urlencoded_plain_safe:
  "urlencoded_plain c \<Longrightarrow>
     c \<noteq> CHR ''&'' \<and> c \<noteq> CHR ''='' \<and> c \<noteq> CHR ''#'' \<and> c \<noteq> CHR ''+'' \<and> c \<noteq> CHR ''%''"
  by (auto simp: urlencoded_plain_def)

lemma urlencode_byte_chars:
  "x \<in> set (urlencode_byte c) \<Longrightarrow> x \<noteq> CHR ''&'' \<and> x \<noteq> CHR ''='' \<and> x \<noteq> CHR ''#''"
  using hex_upper_safe[OF high_nibble, of c] hex_upper_safe[of "of_char c mod 16"]
    urlencoded_plain_safe[of c]
  by (auto simp: urlencode_byte_def split: if_splits)

lemma urlencode_chars:
  "x \<in> set (urlencode s) \<Longrightarrow> x \<noteq> CHR ''&'' \<and> x \<noteq> CHR ''='' \<and> x \<noteq> CHR ''#''"
  unfolding urlencode_def using urlencode_byte_chars by auto

lemma urldecode_byte: "urldecode (urlencode_byte c @ rest) = c # urldecode rest"
proof -
  have "char_of (16 * ((of_char c :: nat) div 16) + of_char c mod 16) = c"
    by simp
  then show ?thesis
    using urlencoded_plain_safe[of c]
    by (simp add: urlencode_byte_def unhex_hex_upper[OF high_nibble]
        unhex_hex_upper[of "of_char c mod 16"])
qed

lemma urldecode_urlencode_append: "urldecode (urlencode s @ rest) = s @ urldecode rest"
  by (induction s) (simp_all add: urlencode_def urldecode_byte)

lemma urldecode_urlencode: "urldecode (urlencode s) = s"
  using urldecode_urlencode_append[of s "[]"] by simp

lemma parse_pair_encoded: "parse_pair (urlencode n @ CHR ''='' # urlencode v) = (n, v)"
proof -
  have "takeWhile (\<lambda>c. c \<noteq> CHR ''='') (urlencode n @ CHR ''='' # urlencode v) = urlencode n"
    by (rule takeWhile_tail[THEN trans]) (use urlencode_chars in auto)
  then show ?thesis
    by (simp add: parse_pair_def urldecode_urlencode)
qed

lemma split_on_append: "d \<notin> set s \<Longrightarrow> split_on d (s @ d # rest) = s # split_on d rest"
  by (induction s) auto

lemma split_on_plain: "d \<notin> set s \<Longrightarrow> split_on d s = [s]"
  by (induction s) auto

lemma split_on_join:
  "pieces \<noteq> [] \<Longrightarrow> \<forall>s\<in>set pieces. d \<notin> set s \<Longrightarrow> split_on d (join [d] pieces) = pieces"
  by (induction "[d]" pieces rule: join.induct) (auto simp: split_on_append split_on_plain)

lemma set_join: "set (join sep xs) \<subseteq> set sep \<union> \<Union> (set ` set xs)"
  by (induction sep xs rule: join.induct) auto

lemma parse_toString: "parse_urlencoded (URLSearchParams_toString ps) = ps"
proof (cases ps)
  case Nil
  then show ?thesis
    by (simp add: parse_urlencoded_def URLSearchParams_toString_def)
next
  case (Cons p ps')
  let ?pieces = "map (\<lambda>p. urlencode (fst p) @ ''='' @ urlencode (snd p)) ps"
  have ne: "?pieces \<noteq> []" using Cons by simp
  have amp: "\<forall>s\<in>set ?pieces. CHR ''&'' \<notin> set s"
    using urlencode_chars by auto
  have "split_on CHR ''&'' (join ''&'' ?pieces) = ?pieces"
    using split_on_join[OF ne amp] by simp
  moreover have "filter (\<lambda>piece. piece \<noteq> []) ?pieces = ?pieces"
    by (simp add: filter_id_conv)
  moreover have "map parse_pair ?pieces = ps"
    by (induction ps) (simp_all add: parse_pair_encoded)
  ultimately show ?thesis
    by (simp add: parse_urlencoded_def URLSearchParams_toString_def)
qed

lemma toString_no_hash: "CHR ''#'' \<notin> set (URLSearchParams_toString ps)"
proof
  assume "CHR ''#'' \<in> set (URLSearchParams_toString ps)"
  then have "CHR ''#'' \<in> set ''&'' \<union> \<Union> (set ` set (map (\<lambda>p. urlencode (fst p) @ ''='' @ urlencode (snd p)) ps))"
    unfolding URLSearchParams_toString_def using set_join by blast
  then show False
    using urlencode_chars by (fastforce split: if_splits)
qed

lemma url_query_append:
  assumes "url_plain path" and "CHR ''#'' \<notin> set q"
  shows "url_query (path @ CHR ''?'' # q) = Some q"
proof -
  have 1: "takeWhile (\<lambda>c. c \<noteq> CHR ''#'') (path @ CHR ''?'' # q) = path @ CHR ''?'' # q"
    using assms by (auto simp: url_plain_def)
  have 2: "dropWhile (\<lambda>c. c \<noteq> CHR ''?'') (path @ CHR ''?'' # q) = CHR ''?'' # q"
    using assms by (auto simp: url_plain_def dropWhile_append3)
  show ?thesis
    by (simp add: url_query_def 1 2)
qed

lemma query_params_built:
  "url_plain path \<Longrightarrow> query_params (path @ CHR ''?'' # URLSearchParams_toString ps) = ps"
  by (simp add: query_params_def url_query_append[OF _ toString_no_hash] parse_toString)

section \<open>Lemmas: setting a parameter\<close>

lemma named_filtered: "named n (filter (\<lambda>p'. fst p' \<noteq> n) ps) = []"
  by (simp add: named_def filter_empty_conv)

lemma named_set_first:
  "n \<in> fst ` set ps \<Longrightarrow> named n (set_first n v ps) = [(n, v)]"
proof (induction ps)
  case Nil
  then show ?case by simp
next
  case (Cons p ps)
  show ?case
  proof (cases "fst p = n")
    case True
    then show ?thesis
      using named_filtered[of n ps] by (simp add: named_def)
  next
    case False
    then have "n \<in> fst ` set ps" using Cons.prems by auto
    then show ?thesis
      using False Cons.IH by (simp add: named_def)
  qed
qed

lemma named_set: "named n (URLSearchParams_set n v ps) = [(n, v)]"
proof (cases "n \<in> fst ` set ps")
  case True
  then show ?thesis by (simp add: URLSearchParams_set_def named_set_first)
next
  case False
  then have "filter (\<lambda>p. fst p = n) ps = []"
    by (auto simp: filter_empty_conv)
  with False show ?thesis by (simp add: URLSearchParams_set_def named_def)
qed

lemma filter_set_first:
  "\<forall>p. P p \<longrightarrow> fst p \<noteq> n \<Longrightarrow> filter P (set_first n v ps) = filter P ps"
proof (induction ps)
  case Nil
  then show ?case by simp
next
  case (Cons p ps)
  have "filter P (filter (\<lambda>p'. fst p' \<noteq> n) ps) = filter P ps"
    unfolding filter_filter using Cons.prems by (intro filter_cong) auto
  moreover have "\<not> P (n, v)" and "fst p = n \<Longrightarrow> \<not> P p"
    using Cons.prems by fastforce+
  ultimately show ?case
    using Cons by (cases "fst p = n") simp_all
qed

lemma filter_set:
  "\<forall>p. P p \<longrightarrow> fst p \<noteq> n \<Longrightarrow> filter P (URLSearchParams_set n v ps) = filter P ps"
  by (auto simp: URLSearchParams_set_def filter_set_first)

lemma named_set_other: "n' \<noteq> n \<Longrightarrow> named n' (URLSearchParams_set n v ps) = named n' ps"
  unfolding named_def by (rule filter_set) auto

lemma others_set_key: "others (URLSearchParams_set ''consumer_key'' v ps) = others ps"
  unfolding others_def by (rule filter_set) auto

lemma others_set_secret: "others (URLSearchParams_set ''consumer_secret'' v ps) = others ps"
  unfolding others_def by (rule filter_set) auto

section \<open>Lemmas: the URL\<close>

lemma set_replace_first:
  "set rep \<subseteq> set pat \<Longrightarrow> set (replace_first pat rep s) \<subseteq> set s"
proof (induction s)
  case Nil
  then show ?case by auto
next
  case (Cons c cs)
  show ?case
  proof (cases "prefix pat (c # cs)")
    case True
    then have "set pat \<subseteq> set (c # cs)"
      by (rule set_mono_prefix)
    moreover have "set (drop (length pat) (c # cs)) \<subseteq> set (c # cs)"
      by (rule set_drop_subset)
    moreover have "replace_first pat rep (c # cs) = rep @ drop (length pat) (c # cs)"
      using True by simp
    ultimately show ?thesis
      using Cons.prems by auto
  next
    case False
    then show ?thesis using Cons by auto
  qed
qed

lemma replace_first_at_junction:
  "\<not> sublist ''//'' (b @ ''/'') \<Longrightarrow> replace_first ''//'' ''/'' (b @ ''//'' @ rest) = b @ ''/'' @ rest"
proof (induction b)
  case Nil
  then show ?case by simp
next
  case (Cons c b)
  have tail: "\<not> sublist ''//'' (b @ ''/'')"
    using Cons.prems by (auto simp: sublist_Cons_right)
  have np: "\<not> prefix ''//'' (c # (b @ ''//'' @ rest))"
  proof
    assume "prefix ''//'' (c # (b @ ''//'' @ rest))"
    then have "prefix ''//'' ((c # b) @ ''/'')"
      by (cases b) auto
    then show False
      using Cons.prems by (auto simp: sublist_Cons_right)
  qed
  have "replace_first ''//'' ''/'' (c # (b @ ''//'' @ rest))
          = c # replace_first ''//'' ''/'' (b @ ''//'' @ rest)"
    by (subst replace_first.simps(2)) (simp only: np if_False)
  then show ?case
    using Cons.IH[OF tail] by simp
qed

lemma url_plain_append [simp]: "url_plain (a @ b) = (url_plain a \<and> url_plain b)"
  by (auto simp: url_plain_def)

lemma url_plain_replace_first: "url_plain s \<Longrightarrow> url_plain (replace_first ''//'' ''/'' s)"
  using set_replace_first[of "''/''" "''//''" s] by (auto simp: url_plain_def)

lemma url_plain_api_url:
  "WOOCOMMERCE_URL cfg = Some base \<Longrightarrow> url_plain base \<Longrightarrow> url_plain api \<Longrightarrow> url_plain (api_url cfg api)"
  unfolding api_url_def
  by (rule url_plain_replace_first) (simp add: ToString_def, simp add: url_plain_def)

lemma set_digits: "set (digits n) \<subseteq> set ''0123456789''"
proof (induction n rule: digits.induct)
  case (1 n)
  have d: "\<And>k. k < 10 \<Longrightarrow> ''0123456789'' ! k \<in> set ''0123456789''"
    by (rule nth_mem) simp
  show ?case
  proof (cases "n < 10")
    case True
    then show ?thesis using d[of n] by (subst digits.simps) simp
  next
    case False
    then show ?thesis using 1 d[of "n mod 10"] by (subst digits.simps) simp
  qed
qed

lemma url_plain_digits: "url_plain (digits n)"
  using set_digits[of n] by (auto simp: url_plain_def)

lemma url_plain_significant: "url_plain ds \<Longrightarrow> url_plain (significant ds)"
  unfolding significant_def url_plain_def
  using set_dropWhileD[of _ "\<lambda>c. c = CHR ''0''" "rev ds"] by auto

lemma url_plain_exponential:
  assumes "url_plain ds"
  shows "url_plain (exponential ds)"
proof -
  have "url_plain (case significant ds of [] \<Rightarrow> [] | [c] \<Rightarrow> [c] | c # cs \<Rightarrow> c # CHR ''.'' # cs)"
  proof (cases "significant ds")
    case Nil
    then show ?thesis by (simp add: url_plain_def)
  next
    case (Cons c cs)
    then have "url_plain (c # cs)"
      using url_plain_significant[OF assms] by simp
    then show ?thesis
      using Cons by (cases cs) (simp_all add: url_plain_def)
  qed
  moreover have "url_plain (''e+'' @ digits (length ds - 1))"
    using url_plain_digits[of "length ds - 1"] by (simp add: url_plain_def)
  ultimately show ?thesis
    unfolding exponential_def by (simp only: url_plain_append simp_thms)
qed

lemma url_plain_double_text: "url_plain (double_text x)"
  unfolding double_text_def by (simp add: url_plain_digits url_plain_exponential)

lemma url_plain_magnitude_text: "url_plain (magnitude_text m)"
  unfolding magnitude_text_def by (simp add: url_plain_double_text) (simp add: url_plain_def)

lemma url_plain_Number_toString: "url_plain (Number_toString n)"
  using url_plain_magnitude_text[of "nat n"] url_plain_magnitude_text[of "nat (- n)"]
  by (simp add: Number_toString_def url_plain_def)

section \<open>Lemmas: numbers as text\<close>

lemma bit_length_le: "m < 2 ^ k \<Longrightarrow> bit_length m \<le> k"
proof (induction k arbitrary: m)
  case 0
  then show ?case by (simp add: bit_length.simps)
next
  case (Suc k)
  then have "m div 2 < 2 ^ k" by auto
  then have "bit_length (m div 2) \<le> k" by (rule Suc.IH)
  then show ?case by (subst bit_length.simps) simp
qed

lemma bit_length_gt: "2 ^ k \<le> m \<Longrightarrow> k < bit_length m"
proof (induction k arbitrary: m)
  case 0
  then show ?case by (subst bit_length.simps) simp
next
  case (Suc k)
  then have "2 ^ k \<le> m div 2" by simp
  then have "k < bit_length (m div 2)" by (rule Suc.IH)
  moreover have "(0::nat) < 2 ^ Suc k" by (rule zero_less_power) simp
  then have "m \<noteq> 0" using Suc.prems by linarith
  ultimately show ?case by (subst bit_length.simps) simp
qed

lemma bit_length_lower: "m \<noteq> 0 \<Longrightarrow> 2 ^ (bit_length m - 1) \<le> m"
proof (induction m rule: bit_length.induct)
  case (1 m)
  show ?case
  proof (cases "m div 2 = 0")
    case True
    then have "bit_length (m div 2) = 0" by (simp add: bit_length.simps)
    then have "bit_length m = 1" using "1.prems" by (subst bit_length.simps) simp
    then show ?thesis using "1.prems" by simp
  next
    case False
    then have ih: "2 ^ (bit_length (m div 2) - 1) \<le> m div 2"
      using "1.IH" "1.prems" by simp
    have pos: "0 < bit_length (m div 2)"
      using False by (subst bit_length.simps) simp
    have "bit_length m = Suc (bit_length (m div 2))"
      using "1.prems" by (subst bit_length.simps) simp
    then have "(2::nat) ^ (bit_length m - 1) = 2 * 2 ^ (bit_length (m div 2) - 1)"
      using pos by (cases "bit_length (m div 2)") simp_all
    also have "\<dots> \<le> 2 * (m div 2)" using ih by simp
    also have "\<dots> \<le> m" by simp
    finally show ?thesis .
  qed
qed

lemma round_double_small: "m < 2 ^ 53 \<Longrightarrow> round_double m = m"
  using bit_length_le[of m 53] by (simp add: round_double_def round_at_def)

lemma round_double_large:
  assumes "2 ^ k \<le> m" and "53 \<le> k"
  shows "2 ^ k \<le> round_double m"
proof -
  define e where "e = bit_length m - 53"
  have len: "k < bit_length m" using assms(1) by (rule bit_length_gt)
  then have e: "0 < e" and split: "bit_length m - 1 = e + 52" and k: "k \<le> e + 52"
    using assms(2) by (simp_all add: e_def)
  have "(0::nat) < 2 ^ k" by (rule zero_less_power) simp
  then have "m \<noteq> 0" using assms(1) by linarith
  then have "(2::nat) ^ (e + 52) \<le> m"
    using bit_length_lower[of m] split by simp
  then have "(2::nat) ^ (e + 52) div 2 ^ e \<le> m div 2 ^ e"
    by (rule div_le_mono)
  then have q: "(2::nat) ^ 52 \<le> m div 2 ^ e"
    by (simp add: power_add)
  have "(2::nat) ^ k \<le> 2 ^ (52 + e)"
    using k by (intro power_increasing) simp_all
  also have "\<dots> = 2 ^ 52 * 2 ^ e"
    by (rule power_add)
  also have "\<dots> \<le> (m div 2 ^ e) * 2 ^ e"
    using q by (rule mult_le_mono1)
  finally have low: "(2::nat) ^ k \<le> (m div 2 ^ e) * 2 ^ e" .
  moreover have "(m div 2 ^ e) * 2 ^ e \<le> (m div 2 ^ e + 1) * 2 ^ e"
    by simp
  ultimately show ?thesis
    using e unfolding round_double_def round_at_def e_def[symmetric]
    by (auto simp del: power_numeral)
qed

lemma is_finite_small: "m < 2 ^ 53 \<Longrightarrow> is_finite m"
proof -
  assume small: "m < 2 ^ 53"
  have "(2::nat) ^ 53 < 2 ^ 1024"
    by (rule power_strict_increasing) simp_all
  then have "m < 2 ^ 1024"
    using small by linarith
  then show ?thesis
    using small by (simp add: is_finite_def round_double_small del: power_numeral)
qed

lemma not_finite_large: "2 ^ 1024 \<le> m \<Longrightarrow> \<not> is_finite m"
  using round_double_large[of 1024 m] by (simp add: is_finite_def del: power_numeral)

lemma below_le: "below x t \<le> x"
  by (simp add: below_def)

lemma above_gt: "x < below x t + 10 ^ t"
proof -
  have "x = below x t + x mod 10 ^ t"
    unfolding below_def by (rule div_mult_mod_eq[symmetric])
  moreover have "x mod 10 ^ t < (10::nat) ^ t"
    by simp
  ultimately show ?thesis
    by linarith
qed

lemma round_double_above:
  assumes "x < 2 ^ 53" and "x < y"
  shows "round_double y \<noteq> x"
proof (cases "y < 2 ^ 53")
  case True
  then show ?thesis using assms by (simp add: round_double_small)
next
  case False
  then have "2 ^ 53 \<le> round_double y" by (intro round_double_large) simp_all
  then show ?thesis using assms by simp
qed

lemma nearer_small:
  assumes "x < 2 ^ 53" and "round_double (below x t) = x \<or> round_double (below x t + 10 ^ t) = x"
  shows "nearer x t (below x t) = x"
proof -
  have hi: "round_double (below x t + 10 ^ t) \<noteq> x"
    using assms(1) above_gt by (rule round_double_above)
  then have lo: "round_double (below x t) = x"
    using assms(2) by simp
  have "below x t < 2 ^ 53"
    using below_le[of x t] assms(1) by simp
  then have "below x t = x"
    using lo by (simp add: round_double_small)
  then show ?thesis
    using hi lo by (simp add: nearer_def)
qed

lemma shortest_small: "x < 2 ^ 53 \<Longrightarrow> shortest x d k = x"
proof (induction x d k rule: shortest.induct)
  case (1 x d k)
  show ?case
  proof (cases "d \<le> k")
    case True
    then show ?thesis by (subst shortest.simps) simp
  next
    case False
    show ?thesis
    proof (cases "round_double (below x (d - k)) = x \<or> round_double (below x (d - k) + 10 ^ (d - k)) = x")
      case True
      then have "nearer x (d - k) (below x (d - k)) = x"
        using "1.prems" by (intro nearer_small)
      then show ?thesis
        using False True by (subst shortest.simps) simp
    next
      case found: False
      then have "shortest x d (Suc k) = x"
        using "1.IH" False "1.prems" by simp
      then show ?thesis
        using False found by (subst shortest.simps) simp
    qed
  qed
qed

lemma length_digits: "0 < k \<Longrightarrow> n < 10 ^ k \<Longrightarrow> length (digits n) \<le> k"
proof (induction n arbitrary: k rule: digits.induct)
  case (1 n)
  show ?case
  proof (cases "n < 10")
    case True
    then show ?thesis using "1.prems" by (subst digits.simps) simp
  next
    case False
    then obtain j where k: "k = Suc j"
      using "1.prems" by (cases k) simp_all
    have "0 < j"
      using False "1.prems" k by (cases j) simp_all
    moreover have "n div 10 < 10 ^ j"
      using "1.prems" k by auto
    ultimately have "length (digits (n div 10)) \<le> j"
      using "1.IH" False by simp
    then show ?thesis
      using False k by (subst digits.simps) simp
  qed
qed

lemma magnitude_text_small: "m < 2 ^ 53 \<Longrightarrow> magnitude_text m = digits m"
proof -
  assume small: "m < 2 ^ 53"
  have "(2::nat) ^ 53 < 10 ^ 16" by simp
  then have "m < 10 ^ 16" using small by linarith
  then have len: "length (digits m) \<le> 16"
    by (intro length_digits) simp_all
  have fin: "is_finite m"
    using small by (rule is_finite_small)
  have zero: "digits 0 = ''0''"
    by (simp add: digits.simps)
  show ?thesis
    using small len fin zero
    by (simp add: magnitude_text_def double_text_def round_double_small shortest_small
        del: power_numeral)
qed

lemma Number_toString_small: "\<bar>n\<bar> < 2 ^ 53 \<Longrightarrow> Number_toString n = decimal n"
proof -
  assume small: "\<bar>n\<bar> < 2 ^ 53"
  have "nat \<bar>n\<bar> < nat (2 ^ 53)"
    using small by (intro iffD2[OF nat_less_eq_zless]) simp_all
  then have "nat \<bar>n\<bar> < 2 ^ 53"
    by (simp del: power_numeral)
  then have "magnitude_text (nat \<bar>n\<bar>) = digits (nat \<bar>n\<bar>)"
    by (rule magnitude_text_small)
  then show ?thesis
    by (cases "n < 0") (simp_all add: Number_toString_def decimal_def abs_if)
qed








lemma exponent_examples:
  "is_finite 1000000000000000000000"
  "Number_toString 1000000000000000000000 = ''1e+21''"
  by (simp_all add: Number_toString_def magnitude_text_def double_text_def exponential_def
      significant_def is_finite_def round_double_def round_at_def below_def nearer_def
      bit_length.simps shortest.simps digits.simps)



section \<open>Lemmas: one call, one request\<close>

lemma call_request:
  "fst (call cfg net method api query body w) = net (request_of cfg method api query body)"
  "fetched (snd (call cfg net method api query body w))
     = fetched w @ [request_of cfg method api query body]"
  by (simp_all add: call_def Let_def request_of_def sent_url_def sent_query_def)

lemma request_of_simps [simp]:
  "req_url (request_of cfg method api query body) = sent_url cfg api query"
  "req_method (request_of cfg method api query body) = method"
  "req_body (request_of cfg method api query body) = (if truthy body then JSON_stringify body else body)"
  by (simp_all add: request_of_def)

lemma get_run:
  "fst (get cfg net api query w) = net (request_of cfg ''GET'' api query JUndefined)"
  "fetched (snd (get cfg net api query w)) = fetched w @ [request_of cfg ''GET'' api query JUndefined]"
  by (simp_all add: get_def call_request)

lemma createOrder_run:
  "fst (createOrder cfg net line_items customer_note w) =
     (case net (request_of cfg ''POST'' ''orders'' None
                  (JObj [(''set_paid'', JBool False), (''line_items'', JArr line_items),
                         (''customer_note'', JStr customer_note)])) of
        Inl e \<Rightarrow> Inl e
      | Inr res \<Rightarrow> Response_json res)"
  "fetched (snd (createOrder cfg net line_items customer_note w)) =
     fetched w @ [request_of cfg ''POST'' ''orders'' None
                  (JObj [(''set_paid'', JBool False), (''line_items'', JArr line_items),
                         (''customer_note'', JStr customer_note)])]"
  by (simp_all add: createOrder_def post_def Let_def split_def call_request split: sum.splits)

lemma updateOrder_run:
  "fst (updateOrder cfg net orderId update w)
     = net (request_of cfg ''PUT'' (''orders/'' @ Number_toString orderId) None update)"
  "fetched (snd (updateOrder cfg net orderId update w))
     = fetched w @ [request_of cfg ''PUT'' (''orders/'' @ Number_toString orderId) None update]"
  by (simp_all add: updateOrder_def put_def call_request)

lemma updateOrderInfo_eq:
  "updateOrderInfo cfg net orderId orderInfo =
     updateOrder cfg net orderId (JObj [(''shipping'', JObj (shipping_fields orderInfo)),
                                        (''billing'', JObj (billing_fields orderInfo))])"
  by (simp add: updateOrderInfo_def shipping_fields_def billing_fields_def)

lemma setOrderPaid_eq:
  "setOrderPaid cfg net orderId = updateOrder cfg net orderId (JObj [(''set_paid'', JBool True)])"
  by (simp add: setOrderPaid_def)

lemma createUser_eq:
  "createUser cfg net orderInfo w =
     (let (res, w') = post cfg net ''customers'' (JObj (user_fields orderInfo)) None w
      in case res of Inl e \<Rightarrow> (Inl e, w') | Inr r \<Rightarrow> (Response_json r, w'))"
  by (simp add: createUser_def user_fields_def shipping_fields_def billing_fields_def)

lemma createUser_run:
  "fst (createUser cfg net orderInfo w) =
     (case net (request_of cfg ''POST'' ''customers'' None (JObj (user_fields orderInfo))) of
        Inl e \<Rightarrow> Inl e
      | Inr res \<Rightarrow> Response_json res)"
  "fetched (snd (createUser cfg net orderInfo w)) =
     fetched w @ [request_of cfg ''POST'' ''customers'' None (JObj (user_fields orderInfo))]"
  unfolding createUser_eq
  by (simp_all add: post_def Let_def split_def call_request split: sum.splits)

lemma getShippingOptions_run:
  "fst (getShippingOptions cfg net zoneId w) =
     (case net (request_of cfg ''GET'' (''shipping/zones/'' @ Number_toString zoneId @ ''/methods'')
                  None JUndefined) of
        Inl e \<Rightarrow> Inl e
      | Inr res \<Rightarrow>
          (case Response_json res of
             Inl e \<Rightarrow> Inl e
           | Inr methods \<Rightarrow> options_of_methods methods))"
  "fetched (snd (getShippingOptions cfg net zoneId w)) =
     fetched w @ [request_of cfg ''GET'' (''shipping/zones/'' @ Number_toString zoneId @ ''/methods'')
                    None JUndefined]"
  by (simp_all add: getShippingOptions_def get_def Let_def split_def call_request split: sum.splits)

lemma woo_sends:
  "\<exists>r. fetched (snd (woo cfg net op w)) = fetched w @ [r]
       \<and> req_url r = sent_url cfg (endpoint op) (caller_query op)"
  by (cases op)
    (simp_all add: get_run createOrder_run createUser_run updateOrderInfo_eq setOrderPaid_eq
      updateOrder_run getShippingOptions_run)

section \<open>Lemmas: the parameters of a request\<close>

lemma query_params_sent_url:
  "url_plain (api_url cfg api) \<Longrightarrow> query_params (sent_url cfg api query) = sent_query cfg query"
  by (simp add: sent_url_def query_params_built)

lemma named_key_sent:
  "named ''consumer_key'' (sent_query cfg query) = [(''consumer_key'', ToString (CONSUMER_KEY cfg))]"
  by (simp add: sent_query_def named_set)

lemma named_secret_sent:
  "named ''consumer_secret'' (sent_query cfg query)
     = [(''consumer_secret'', ToString (CONSUMER_SECRET cfg))]"
  by (simp add: sent_query_def named_set named_set_other)

lemma others_sent: "others (sent_query cfg query) = others (case query of None \<Rightarrow> [] | Some q \<Rightarrow> q)"
  by (simp add: sent_query_def others_set_key others_set_secret)

lemma sent_query_None:
  "sent_query cfg None =
     [(''consumer_secret'', ToString (CONSUMER_SECRET cfg)), (''consumer_key'', ToString (CONSUMER_KEY cfg))]"
  by (simp add: sent_query_def URLSearchParams_set_def)

lemma url_plain_endpoint: "url_plain (caller_endpoint op) \<Longrightarrow> url_plain (endpoint op)"
  using url_plain_Number_toString by (cases op) (simp_all, simp_all add: url_plain_def)

section \<open>Lemmas: the response\<close>

lemma Response_json_status: "Response_json (res\<lparr>res_status := code\<rparr>) = Response_json res"
  by (simp add: Response_json_def)

lemma with_status_cases:
  "(case with_status code net r of Inl e \<Rightarrow> Inl e | Inr res \<Rightarrow> f (Response_json res))
     = (case net r of Inl e \<Rightarrow> Inl e | Inr res \<Rightarrow> f (Response_json res))"
  by (cases "net r") (simp_all add: with_status_def Response_json_status)

section \<open>Lemmas: filtering and projecting the shipping methods\<close>

lemma get_prop_value:
  "m \<noteq> JNull \<Longrightarrow> m \<noteq> JUndefined \<Longrightarrow> get_prop m k = Inr (prop_value m k)"
  by (cases m) (simp_all add: prop_value_def)

lemma filter_enabled_value:
  "\<forall>m\<in>set ms. m \<noteq> JNull \<and> m \<noteq> JUndefined \<Longrightarrow>
     filter_enabled ms = Inr (filter (\<lambda>m. truthy (prop_value m ''enabled'')) ms)"
  by (induction ms) (simp_all add: get_prop_value)

lemma map_shipping_option_value:
  "\<forall>m\<in>set ms. m \<noteq> JNull \<and> m \<noteq> JUndefined \<Longrightarrow> map_shipping_option ms = Inr (map projected ms)"
  by (induction ms) (simp_all add: get_prop_value shipping_option_def projected_def)

lemma options_of_methods_value:
  assumes "\<forall>m\<in>set ms. m \<noteq> JNull \<and> m \<noteq> JUndefined"
  shows "options_of_methods (JArr ms)
           = Inr (map projected (filter (\<lambda>m. truthy (prop_value m ''enabled'')) ms))"
proof -
  have "\<forall>m\<in>set (filter (\<lambda>m. truthy (prop_value m ''enabled'')) ms). m \<noteq> JNull \<and> m \<noteq> JUndefined"
    using assms by simp
  then show ?thesis
    using assms by (simp add: options_of_methods_def filter_enabled_value map_shipping_option_value)
qed

section \<open>Evaluation\<close>

lemmas run_defs = get_def post_def put_def call_def Let_def api_url_def ToString_def
  URLSearchParams_set_def URLSearchParams_toString_def urlencode_def urlencode_byte_def
  urlencoded_plain_def hex_upper_def shop_def start_def answering_def

lemmas read_defs = query_params_def url_query_def parse_urlencoded_def parse_pair_def unhex_def

lemmas text_defs = JSON_stringify_def QuoteJSONString_def json_escape_def hex_lower_def
  Number_toString_small decimal_def digits.simps is_finite_small not_finite_large exponent_examples
  read_decimal_def digit_value_def

lemmas number_defs = Number_toString_def magnitude_text_def double_text_def exponential_def
  significant_def is_finite_def round_double_def round_at_def below_def nearer_def
  bit_length.simps shortest.simps digits.simps

lemmas shipping_defs = getShippingOptions_run answering_def Response_json_def options_of_methods_def
  shipping_option_def

section \<open>Credentials in the query of every request\<close>

text \<open>
  Claim C1 does not hold as stated. The endpoint is pasted into the URL as it is, so the
  exported \<^verbatim>\<open>get\<close> called with the endpoint \<^verbatim>\<open>orders#\<close> hands \<^verbatim>\<open>fetch\<close> a URL whose
  parameters all stand behind the \<^verbatim>\<open>#\<close>, in the fragment: the URL has no query, and the
  request carries neither the key nor the secret.
\<close>

theorem fragment_endpoint_drops_credentials:
  "map req_url (fetched (snd (woo shop (answering 200 None) (Get ''orders#'' None) start)))
     = [''https:/shop.example/wp-json/wc/v3/orders#?consumer_secret=cs_2&consumer_key=ck_1'']
   \<and> url_query ''https:/shop.example/wp-json/wc/v3/orders#?consumer_secret=cs_2&consumer_key=ck_1''
     = None
   \<and> query_params ''https:/shop.example/wp-json/wc/v3/orders#?consumer_secret=cs_2&consumer_key=ck_1''
     = []"
  by (simp add: run_defs read_defs)

text \<open>
  Claim C1, as amended: every member of the exported object hands exactly one request to
  \<^verbatim>\<open>fetch\<close>, and when the three credentials are configured and neither the base URL nor
  the endpoint that a caller of \<^verbatim>\<open>get\<close> writes contains \<^verbatim>\<open>?\<close> or \<^verbatim>\<open>#\<close>, the query of that
  request's URL has exactly one parameter \<^verbatim>\<open>consumer_key\<close>, with the configured key, and
  exactly one parameter \<^verbatim>\<open>consumer_secret\<close>, with the configured secret.
\<close>

theorem request_carries_credentials:
  assumes "WOOCOMMERCE_URL cfg = Some base"
    and "CONSUMER_KEY cfg = Some key"
    and "CONSUMER_SECRET cfg = Some secret"
    and "url_plain base"
    and "url_plain (caller_endpoint op)"
  shows "\<exists>r. fetched (snd (woo cfg net op w)) = fetched w @ [r]
           \<and> named ''consumer_key'' (query_params (req_url r)) = [(''consumer_key'', key)]
           \<and> named ''consumer_secret'' (query_params (req_url r)) = [(''consumer_secret'', secret)]"
proof -
  obtain r where r: "fetched (snd (woo cfg net op w)) = fetched w @ [r]"
      "req_url r = sent_url cfg (endpoint op) (caller_query op)"
    using woo_sends by blast
  have "url_plain (api_url cfg (endpoint op))"
    using assms url_plain_endpoint url_plain_api_url by blast
  then have "query_params (req_url r) = sent_query cfg (caller_query op)"
    using r(2) query_params_sent_url by simp
  then show ?thesis
    using r(1) assms(2,3) by (auto simp: named_key_sent named_secret_sent ToString_def)
qed

text \<open>The amended claim C1 at \<^verbatim>\<open>setOrderPaid(42)\<close> for the example shop.\<close>

theorem request_carries_credentials_witness:
  "url_plain ''https://shop.example'' \<and> url_plain (caller_endpoint (SetOrderPaid 42))
   \<and> (\<exists>r. fetched (snd (woo shop (answering 200 None) (SetOrderPaid 42) start)) = fetched start @ [r]
           \<and> named ''consumer_key'' (query_params (req_url r)) = [(''consumer_key'', ''ck_1'')]
           \<and> named ''consumer_secret'' (query_params (req_url r)) = [(''consumer_secret'', ''cs_2'')])"
  using request_carries_credentials[of shop "''https://shop.example''" "''ck_1''" "''cs_2''"
      "SetOrderPaid 42" "answering 200 None" start]
  by (simp add: shop_def url_plain_def)

section \<open>Parameters supplied by the caller\<close>

text \<open>
  Claim C9 does not hold as stated. A caller of the exported \<^verbatim>\<open>get\<close> who writes a query
  into the endpoint gets it into the URL in front of the parameters the module sets: the
  second \<^verbatim>\<open>?\<close> is then part of a value. Here the query of the request carries the key
  \<^verbatim>\<open>evil\<close> chosen by the caller and no parameter with the configured key \<^verbatim>\<open>ck_1\<close>,
  although the caller's own \<^verbatim>\<open>consumer_key\<close> parameter was overwritten.
\<close>

theorem endpoint_query_keeps_caller_key:
  "map (\<lambda>r. query_params (req_url r))
     (fetched (snd (woo shop (answering 200 None)
        (Get ''orders?consumer_key=evil&x='' (Some [(''consumer_key'', ''mine''), (''page'', ''2'')]))
        start)))
   = [[(''consumer_key'', ''evil''), (''x'', ''?consumer_key=ck_1''), (''page'', ''2''),
       (''consumer_secret'', ''cs_2'')]]"
  by (simp add: run_defs read_defs)

text \<open>
  Claim C9, as amended: when a caller of \<^verbatim>\<open>get\<close> supplies query parameters, and neither
  the configured base URL nor the endpoint contains \<^verbatim>\<open>?\<close> or \<^verbatim>\<open>#\<close>, the query of the one
  request sent has exactly one \<^verbatim>\<open>consumer_key\<close> and exactly one \<^verbatim>\<open>consumer_secret\<close>
  parameter, with the configured values (whatever the caller supplied under these names
  is overwritten or removed), and all other parameters of the caller are there, unchanged
  and in their order.
\<close>

theorem caller_parameters_overwritten:
  assumes "WOOCOMMERCE_URL cfg = Some base"
    and "CONSUMER_KEY cfg = Some key"
    and "CONSUMER_SECRET cfg = Some secret"
    and "url_plain base"
    and "url_plain api"
  shows "\<exists>r. fetched (snd (woo cfg net (Get api (Some query)) w)) = fetched w @ [r]
           \<and> named ''consumer_key'' (query_params (req_url r)) = [(''consumer_key'', key)]
           \<and> named ''consumer_secret'' (query_params (req_url r)) = [(''consumer_secret'', secret)]
           \<and> others (query_params (req_url r)) = others query"
proof -
  obtain r where r: "fetched (snd (woo cfg net (Get api (Some query)) w)) = fetched w @ [r]"
      "req_url r = sent_url cfg api (Some query)"
    using woo_sends[of cfg net "Get api (Some query)" w] by auto
  have "url_plain (api_url cfg api)"
    using assms url_plain_api_url by blast
  then have "query_params (req_url r) = sent_query cfg (Some query)"
    using r(2) query_params_sent_url by simp
  then show ?thesis
    using r(1) assms(2,3) by (auto simp: named_key_sent named_secret_sent others_sent ToString_def)
qed

text \<open>
  The amended claim C9 for a caller who supplies \<^verbatim>\<open>consumer_key\<close> twice and a page number.
\<close>

theorem caller_parameters_overwritten_witness:
  "url_plain ''https://shop.example'' \<and> url_plain ''orders''
   \<and> (\<exists>r. fetched (snd (woo shop (answering 200 None)
              (Get ''orders'' (Some [(''consumer_key'', ''mine''), (''page'', ''2''),
                                     (''consumer_key'', ''again'')])) start)) = fetched start @ [r]
           \<and> named ''consumer_key'' (query_params (req_url r)) = [(''consumer_key'', ''ck_1'')]
           \<and> named ''consumer_secret'' (query_params (req_url r)) = [(''consumer_secret'', ''cs_2'')]
           \<and> others (query_params (req_url r)) = [(''page'', ''2'')])"
  using caller_parameters_overwritten[of shop "''https://shop.example''" "''ck_1''" "''cs_2''"
      "''orders''" "answering 200 None"
      "[(''consumer_key'', ''mine''), (''page'', ''2''), (''consumer_key'', ''again'')]" start]
  by (simp add: shop_def url_plain_def others_def)

section \<open>The URL of the endpoint\<close>

text \<open>
  Claim C3 (a base URL that ends in a slash gives no doubled slash in front of the API
  prefix) fails on the code for every base URL with a scheme: the first \<^verbatim>\<open>//\<close> of the
  joined text is the one after \<^verbatim>\<open>https:\<close>, so \<^verbatim>\<open>replace\<close> shortens the scheme separator
  and the doubled slash in front of \<^verbatim>\<open>wp-json\<close> stays.
\<close>

theorem trailing_slash_keeps_double_slash:
  "api_url (shop\<lparr>WOOCOMMERCE_URL := Some ''https://shop.example/''\<rparr>) ''orders''
     = ''https:/shop.example//wp-json/wc/v3/orders''"
  by (simp add: api_url_def ToString_def shop_def)

text \<open>The same for every host: with a scheme in front, the slash that is lost is one of its two.\<close>

lemma scheme_takes_the_replacement:
  "api_url (cfg\<lparr>WOOCOMMERCE_URL := Some (''https://'' @ host @ ''/'')\<rparr>) api
     = ''https:/'' @ host @ ''//wp-json/wc/v3/'' @ api"
  by (simp add: api_url_def ToString_def)

text \<open>
  The doubled slash of the junction is the one removed only when the base URL has no
  doubled slash before it, which leaves out every base URL that starts with a scheme.
\<close>

lemma api_url_plain_base:
  assumes "WOOCOMMERCE_URL cfg = Some (b @ ''/'')" and "\<not> sublist ''//'' (b @ ''/'')"
  shows "api_url cfg api = b @ ''/wp-json/wc/v3/'' @ api"
  using replace_first_at_junction[OF assms(2), of "''wp-json/wc/v3/'' @ api"] assms(1)
  by (simp add: api_url_def ToString_def)

section \<open>Loading the module\<close>

text \<open>
  Claim C4 does not hold as stated. With an empty environment the module loads, its three
  credentials are \<^verbatim>\<open>undefined\<close>, and an operation run afterwards sends its request, with
  the text \<^verbatim>\<open>undefined\<close> in the place of each credential.
\<close>

theorem missing_credentials_start_up:
  "module_init Map.empty = Inr \<lparr>WOOCOMMERCE_URL = None, CONSUMER_KEY = None, CONSUMER_SECRET = None\<rparr>
   \<and> map req_url (fetched (snd (woo \<lparr>WOOCOMMERCE_URL = None, CONSUMER_KEY = None, CONSUMER_SECRET = None\<rparr>
          (answering 200 None) (SetOrderPaid 42) start)))
       = [''undefined/wp-json/wc/v3/orders/42?consumer_secret=undefined&consumer_key=undefined'']"
  by (simp add: module_init_def setOrderPaid_def updateOrder_def number_defs run_defs)

text \<open>
  Claim C4, as amended: loading the module never fails. For every environment it ends
  with the three credentials read from the environment, each one the value of its
  variable or \<^verbatim>\<open>undefined\<close> when the variable is absent (nothing is checked at startup),
  and every operation run afterwards sends its request. With all three variables
  present, startup succeeds and holds their values.
\<close>

theorem module_init_never_fails:
  "\<exists>cfg. module_init env = Inr cfg
     \<and> WOOCOMMERCE_URL cfg = env ''WOOCOMMERCE_URL''
     \<and> CONSUMER_KEY cfg = env ''WOOCOMMERCE_CONSUMER_KEY''
     \<and> CONSUMER_SECRET cfg = env ''WOOCOMMERCE_CONSUMER_SECRET''
     \<and> length (fetched (snd (woo cfg net op w))) = Suc (length (fetched w))"
proof -
  let ?cfg = "\<lparr>WOOCOMMERCE_URL = env ''WOOCOMMERCE_URL'',
               CONSUMER_KEY = env ''WOOCOMMERCE_CONSUMER_KEY'',
               CONSUMER_SECRET = env ''WOOCOMMERCE_CONSUMER_SECRET''\<rparr>"
  have "length (fetched (snd (woo ?cfg net op w))) = Suc (length (fetched w))"
    using woo_sends[of ?cfg net op w] by auto
  then show ?thesis
    by (intro exI[of _ ?cfg]) (simp add: module_init_def)
qed

text \<open>The amended claim C4 for an environment that holds all three variables.\<close>

theorem module_init_never_fails_witness:
  "\<exists>cfg. module_init [''WOOCOMMERCE_URL'' \<mapsto> ''https://shop.example'',
                       ''WOOCOMMERCE_CONSUMER_KEY'' \<mapsto> ''ck_1'',
                       ''WOOCOMMERCE_CONSUMER_SECRET'' \<mapsto> ''cs_2''] = Inr cfg
     \<and> WOOCOMMERCE_URL cfg = Some ''https://shop.example''
     \<and> CONSUMER_KEY cfg = Some ''ck_1''
     \<and> CONSUMER_SECRET cfg = Some ''cs_2''
     \<and> length (fetched (snd (woo cfg (answering 200 None) (SetOrderPaid 42) start)))
         = Suc (length (fetched start))"
  using module_init_never_fails[of "[''WOOCOMMERCE_URL'' \<mapsto> ''https://shop.example'',
                       ''WOOCOMMERCE_CONSUMER_KEY'' \<mapsto> ''ck_1'',
                       ''WOOCOMMERCE_CONSUMER_SECRET'' \<mapsto> ''cs_2'']"
      "answering 200 None" "SetOrderPaid 42" start]
  by simp

section \<open>Creating an order\<close>

text \<open>
  Claim C5: for every list of line items and every note, \<^verbatim>\<open>createOrder\<close> hands exactly
  one request to \<^verbatim>\<open>fetch\<close>, a \<^verbatim>\<open>POST\<close> to the endpoint \<^verbatim>\<open>orders\<close> whose body is the JSON
  text of \<^verbatim>\<open>{set_paid: false, line_items, customer_note}\<close>, with \<^verbatim>\<open>set_paid\<close> false whatever
  the inputs, and it returns the parsed body of the response unchanged (a rejection of
  \<^verbatim>\<open>fetch\<close> and a body that is not JSON are passed on as errors).
\<close>

theorem createOrder_request:
  "\<exists>r. fetched (snd (createOrder cfg net line_items customer_note w)) = fetched w @ [r]
     \<and> req_method r = ''POST''
     \<and> req_url r = api_url cfg ''orders'' @ ''?'' @ URLSearchParams_toString
           [(''consumer_secret'', ToString (CONSUMER_SECRET cfg)),
            (''consumer_key'', ToString (CONSUMER_KEY cfg))]
     \<and> req_body r = JSON_stringify (JObj [(''set_paid'', JBool False),
                                           (''line_items'', JArr line_items),
                                           (''customer_note'', JStr customer_note)])
     \<and> fst (createOrder cfg net line_items customer_note w) =
         (case net r of
            Inl e \<Rightarrow> Inl e
          | Inr res \<Rightarrow> (case res_json res of None \<Rightarrow> Inl JSONSyntaxError | Some v \<Rightarrow> Inr v))"
  by (rule exI[of _ "request_of cfg ''POST'' ''orders'' None
        (JObj [(''set_paid'', JBool False), (''line_items'', JArr line_items),
               (''customer_note'', JStr customer_note)])"])
    (simp add: createOrder_run sent_url_def sent_query_None Response_json_def split: sum.splits)

text \<open>
  Claim C5 on two calls, with the request as it leaves. The first is the example of the
  specification, \<^verbatim>\<open>createOrder([{product_id: 1, quantity: 2}], "note")\<close>. The second has
  line items that \<^verbatim>\<open>JSON.stringify\<close> does not write as they are (the number \<open>10\<^sup>2\<^sup>1\<close> in
  exponent notation, a number beyond the doubles and an \<^verbatim>\<open>undefined\<close> entry as \<^verbatim>\<open>null\<close>, no
  property for an \<^verbatim>\<open>undefined\<close> value) and a note with a quotation mark, a backslash (the
  byte \<open>0x5C\<close>) and control characters, which are escaped.
\<close>

theorem createOrder_request_witness:
  \<open>(\<exists>r. fetched (snd (createOrder shop (answering 201 (Some (JObj [(''id'', JNum 7)])))
            [JObj [(''product_id'', JNum 1), (''quantity'', JNum 2)]] ''note'' start))
          = fetched start @ [r]
     \<and> req_method r = ''POST''
     \<and> req_url r = ''https:/shop.example/wp-json/wc/v3/orders?consumer_secret=cs_2&consumer_key=ck_1''
     \<and> req_body r =
          JStr ''{"set_paid":false,"line_items":[{"product_id":1,"quantity":2}],"customer_note":"note"}''
     \<and> fst (createOrder shop (answering 201 (Some (JObj [(''id'', JNum 7)])))
            [JObj [(''product_id'', JNum 1), (''quantity'', JNum 2)]] ''note'' start)
          = Inr (JObj [(''id'', JNum 7)]))
   \<and> (\<exists>r. fetched (snd (createOrder shop (answering 201 None)
            [JObj [(''product_id'', JNum (10 ^ 21)), (''quantity'', JNum (- 3)), (''meta'', JUndefined)],
             JUndefined, JNull, JNum (2 ^ 1024), JArr [JBool True, JStr ''x'']]
            (''say "hi"'' @ [CHR 0x5C, CHR 0x08, CHR 0x09, CHR 0x0A, CHR 0x0C, CHR 0x0D, CHR 0x1F] @ ''!'')
            start))
          = fetched start @ [r]
     \<and> req_method r = ''POST''
     \<and> req_url r = ''https:/shop.example/wp-json/wc/v3/orders?consumer_secret=cs_2&consumer_key=ck_1''
     \<and> req_body r =
          JStr (''{"set_paid":false,"line_items":[{"product_id":1e+21,"quantity":-3},null,null,null,[true,"x"]],''
            @ ''"customer_note":"say '' @ [CHR 0x5C] @ ''"hi'' @ [CHR 0x5C] @ ''"'' @ [CHR 0x5C, CHR 0x5C]
            @ [CHR 0x5C] @ ''b'' @ [CHR 0x5C] @ ''t'' @ [CHR 0x5C] @ ''n'' @ [CHR 0x5C] @ ''f''
            @ [CHR 0x5C] @ ''r'' @ [CHR 0x5C] @ ''u001f!"}'')
     \<and> fst (createOrder shop (answering 201 None)
            [JObj [(''product_id'', JNum (10 ^ 21)), (''quantity'', JNum (- 3)), (''meta'', JUndefined)],
             JUndefined, JNull, JNum (2 ^ 1024), JArr [JBool True, JStr ''x'']]
            (''say "hi"'' @ [CHR 0x5C, CHR 0x08, CHR 0x09, CHR 0x0A, CHR 0x0C, CHR 0x0D, CHR 0x1F] @ ''!'')
            start)
          = Inl JSONSyntaxError)\<close>
  using createOrder_request[of shop "answering 201 (Some (JObj [(''id'', JNum 7)]))"
            "[JObj [(''product_id'', JNum 1), (''quantity'', JNum 2)]]" "''note''" start]
    createOrder_request[of shop "answering 201 None"
        "[JObj [(''product_id'', JNum (10 ^ 21)), (''quantity'', JNum (- 3)), (''meta'', JUndefined)],
         JUndefined, JNull, JNum (2 ^ 1024), JArr [JBool True, JStr ''x'']]"
        "''say \"hi\"'' @ [CHR 0x5C, CHR 0x08, CHR 0x09, CHR 0x0A, CHR 0x0C, CHR 0x0D, CHR 0x1F] @ ''!''"
        start]
  by (simp add: text_defs run_defs)


section \<open>Marking an order as paid\<close>




section \<open>Contact information\<close>

text \<open>
  Claim C7: for every contact record, the body that \<^verbatim>\<open>updateOrderInfo\<close> sends is the JSON
  text of an object with the two sub-objects \<^verbatim>\<open>shipping\<close> and \<^verbatim>\<open>billing\<close>. In both,
  \<^verbatim>\<open>first_name\<close> and \<^verbatim>\<open>last_name\<close> are the single name field, and the six address
  properties are the same six fields of the address (\<^verbatim>\<open>undefined\<close> when the contact has no
  address); \<^verbatim>\<open>billing\<close> has the email and the phone number in addition, so every property
  of \<^verbatim>\<open>shipping\<close> is a property of \<^verbatim>\<open>billing\<close> with the same value. The body that
  \<^verbatim>\<open>createUser\<close> sends has the same two sub-objects, after its own \<^verbatim>\<open>email\<close>, and
  \<^verbatim>\<open>first_name\<close>, \<^verbatim>\<open>last_name\<close> and \<^verbatim>\<open>username\<close>, which are the name field as well.
\<close>

theorem single_name_in_both_subobjects:
  "let name_value = (case name orderInfo of None \<Rightarrow> JUndefined | Some s \<Rightarrow> JStr s);
       email_value = (case email orderInfo of None \<Rightarrow> JUndefined | Some s \<Rightarrow> JStr s);
       phone_value = (case phone_number orderInfo of None \<Rightarrow> JUndefined | Some s \<Rightarrow> JStr s);
       of_address = (\<lambda>f. case shipping_address orderInfo of
                            None \<Rightarrow> JUndefined | Some a \<Rightarrow> JStr (f a));
       shipping =
         [(''first_name'', name_value),
          (''last_name'', name_value),
          (''address_1'', of_address street_line1),
          (''address_2'', of_address street_line2),
          (''city'', of_address city),
          (''state'', of_address state),
          (''postcode'', of_address post_code),
          (''country'', of_address country_code)];
       billing =
         [(''first_name'', name_value),
          (''last_name'', name_value),
          (''email'', email_value),
          (''phone'', phone_value),
          (''address_1'', of_address street_line1),
          (''address_2'', of_address street_line2),
          (''city'', of_address city),
          (''state'', of_address state),
          (''postcode'', of_address post_code),
          (''country'', of_address country_code)]
   in map req_body (fetched (snd (updateOrderInfo cfg net orderId orderInfo w)))
        = map req_body (fetched w)
          @ [JSON_stringify (JObj [(''shipping'', JObj shipping), (''billing'', JObj billing)])]
    \<and> map req_body (fetched (snd (createUser cfg net orderInfo w)))
        = map req_body (fetched w)
          @ [JSON_stringify (JObj [(''email'', email_value),
                                   (''first_name'', name_value),
                                   (''last_name'', name_value),
                                   (''username'', name_value),
                                   (''shipping'', JObj shipping),
                                   (''billing'', JObj billing)])]
    \<and> map_of shipping \<subseteq>\<^sub>m map_of billing"
proof -
  have value_of: "\<And>v. field v = (case v of None \<Rightarrow> JUndefined | Some s \<Rightarrow> JStr s)"
    by (simp add: field_def)
  have of_address: "\<And>f. address_field orderInfo f =
      (case shipping_address orderInfo of None \<Rightarrow> JUndefined | Some a \<Rightarrow> JStr (f a))"
    by (simp add: address_field_def field_def split: option.splits)
  have order: "map req_body (fetched (snd (updateOrderInfo cfg net orderId orderInfo w)))
      = map req_body (fetched w)
        @ [JSON_stringify (JObj [(''shipping'', JObj (shipping_fields orderInfo)),
                                 (''billing'', JObj (billing_fields orderInfo))])]"
    by (simp add: updateOrderInfo_eq updateOrder_run)
  have user: "map req_body (fetched (snd (createUser cfg net orderInfo w)))
      = map req_body (fetched w) @ [JSON_stringify (JObj (user_fields orderInfo))]"
    by (simp add: createUser_run user_fields_def)
  have parallel: "map_of (shipping_fields orderInfo) \<subseteq>\<^sub>m map_of (billing_fields orderInfo)"
    by (auto simp: map_le_def shipping_fields_def billing_fields_def)
  show ?thesis
    using parallel unfolding Let_def order user
    by (simp add: user_fields_def shipping_fields_def billing_fields_def value_of of_address)
qed

text \<open>
  Claim C7 on the example of the specification, a contact whose name is Alice, without an
  address and with one, with the four bodies as they are sent: \<^verbatim>\<open>"Alice"\<close> is the first and
  the last name in every sub-object and the user name, and each address property has the
  same value in \<^verbatim>\<open>shipping\<close> and in \<^verbatim>\<open>billing\<close>.
\<close>

theorem single_name_in_both_subobjects_witness:
  \<open>map req_body (fetched (snd (updateOrderInfo shop (answering 200 None) 42 alice start)))
     = [JStr ''{"shipping":{"first_name":"Alice","last_name":"Alice"},"billing":{"first_name":"Alice","last_name":"Alice","email":"alice@shop.example","phone":"555"}}'']
   \<and> map req_body (fetched (snd (createUser shop (answering 200 None) alice start)))
     = [JStr ''{"email":"alice@shop.example","first_name":"Alice","last_name":"Alice","username":"Alice","shipping":{"first_name":"Alice","last_name":"Alice"},"billing":{"first_name":"Alice","last_name":"Alice","email":"alice@shop.example","phone":"555"}}'']
   \<and> map req_body (fetched (snd (updateOrderInfo shop (answering 200 None) 42 alice_at_home start)))
     = [JStr (''{"shipping":{"first_name":"Alice","last_name":"Alice","address_1":"Grote Markt 2","address_2":"2nd floor","city":"Haarlem","state":"NH","postcode":"2011 RD","country":"NL"},''
         @ ''"billing":{"first_name":"Alice","last_name":"Alice","email":"alice@shop.example","phone":"555","address_1":"Grote Markt 2","address_2":"2nd floor","city":"Haarlem","state":"NH","postcode":"2011 RD","country":"NL"}}'')]
   \<and> map req_body (fetched (snd (createUser shop (answering 200 None) alice_at_home start)))
     = [JStr (''{"email":"alice@shop.example","first_name":"Alice","last_name":"Alice","username":"Alice",''
         @ ''"shipping":{"first_name":"Alice","last_name":"Alice","address_1":"Grote Markt 2","address_2":"2nd floor","city":"Haarlem","state":"NH","postcode":"2011 RD","country":"NL"},''
         @ ''"billing":{"first_name":"Alice","last_name":"Alice","email":"alice@shop.example","phone":"555","address_1":"Grote Markt 2","address_2":"2nd floor","city":"Haarlem","state":"NH","postcode":"2011 RD","country":"NL"}}'')]\<close>
  using single_name_in_both_subobjects[of alice shop "answering 200 None" 42 start]
    single_name_in_both_subobjects[of alice_at_home shop "answering 200 None" 42 start]
  by (simp add: Let_def alice_def alice_at_home_def text_defs start_def)


section \<open>Responses and their status\<close>

text \<open>
  Claim C2 does not hold as stated for \<^verbatim>\<open>getShippingOptions\<close>. A response with status
  404 whose body is the JSON error object of the remote API is parsed, and then
  \<^verbatim>\<open>methods.filter\<close> is called on an object: the operation raises a \<^verbatim>\<open>TypeError\<close>, it
  does not resolve with the parsed body.
\<close>

theorem error_body_raises_in_getShippingOptions:
  "fst (getShippingOptions shop
          (answering 404 (Some (JObj [(''code'', JStr ''woocommerce_rest_shipping_zone_invalid''),
                                      (''message'', JStr ''Resource does not exist.''),
                                      (''data'', JObj [(''status'', JNum 404)])])))
          9 start)
     = Inl TypeError"
  by (simp add: getShippingOptions_run answering_def Response_json_def options_of_methods_def)

text \<open>
  Claim C2, as amended: \<^verbatim>\<open>createOrder\<close>, \<^verbatim>\<open>createUser\<close> and \<^verbatim>\<open>getShippingOptions\<close> each send
  exactly one request, pass a rejection of \<^verbatim>\<open>fetch\<close> on, and raise the parsing failure when
  the body of the response is not valid JSON. When it is valid JSON, \<^verbatim>\<open>createOrder\<close> and
  \<^verbatim>\<open>createUser\<close> resolve with the parsed body, and \<^verbatim>\<open>getShippingOptions\<close> goes on to filter
  and project the parsed value as it does for a success, which raises a \<^verbatim>\<open>TypeError\<close> when
  the value is not an array. None of the three outcomes depends on the status code of the
  response.
\<close>

theorem status_is_not_inspected:
  "(\<exists>r. fetched (snd (createOrder cfg net line_items customer_note w)) = fetched w @ [r]
        \<and> fst (createOrder cfg net line_items customer_note w) =
            (case net r of
               Inl e \<Rightarrow> Inl e
             | Inr res \<Rightarrow> (case res_json res of None \<Rightarrow> Inl JSONSyntaxError | Some v \<Rightarrow> Inr v)))
   \<and> (\<exists>r. fetched (snd (createUser cfg net orderInfo w)) = fetched w @ [r]
        \<and> fst (createUser cfg net orderInfo w) =
            (case net r of
               Inl e \<Rightarrow> Inl e
             | Inr res \<Rightarrow> (case res_json res of None \<Rightarrow> Inl JSONSyntaxError | Some v \<Rightarrow> Inr v)))
   \<and> (\<exists>r. fetched (snd (getShippingOptions cfg net zoneId w)) = fetched w @ [r]
        \<and> fst (getShippingOptions cfg net zoneId w) =
            (case net r of
               Inl e \<Rightarrow> Inl e
             | Inr res \<Rightarrow>
                 (case res_json res of
                    None \<Rightarrow> Inl JSONSyntaxError
                  | Some v \<Rightarrow> options_of_methods v)))
   \<and> fst (createOrder cfg (with_status code net) line_items customer_note w)
        = fst (createOrder cfg net line_items customer_note w)
   \<and> fst (createUser cfg (with_status code net) orderInfo w) = fst (createUser cfg net orderInfo w)
   \<and> fst (getShippingOptions cfg (with_status code net) zoneId w)
        = fst (getShippingOptions cfg net zoneId w)"
proof -
  have parse: "\<And>res. Response_json res
      = (case res_json res of None \<Rightarrow> Inl JSONSyntaxError | Some v \<Rightarrow> Inr v)"
    by (simp add: Response_json_def)
  have 1: "\<exists>r. fetched (snd (createOrder cfg net line_items customer_note w)) = fetched w @ [r]
        \<and> fst (createOrder cfg net line_items customer_note w) =
            (case net r of
               Inl e \<Rightarrow> Inl e
             | Inr res \<Rightarrow> (case res_json res of None \<Rightarrow> Inl JSONSyntaxError | Some v \<Rightarrow> Inr v))"
    by (rule exI[of _ "request_of cfg ''POST'' ''orders'' None
        (JObj [(''set_paid'', JBool False), (''line_items'', JArr line_items),
               (''customer_note'', JStr customer_note)])"])
      (simp add: createOrder_run parse split: sum.splits)
  have 2: "\<exists>r. fetched (snd (createUser cfg net orderInfo w)) = fetched w @ [r]
        \<and> fst (createUser cfg net orderInfo w) =
            (case net r of
               Inl e \<Rightarrow> Inl e
             | Inr res \<Rightarrow> (case res_json res of None \<Rightarrow> Inl JSONSyntaxError | Some v \<Rightarrow> Inr v))"
    by (rule exI[of _ "request_of cfg ''POST'' ''customers'' None (JObj (user_fields orderInfo))"])
      (simp add: createUser_run parse split: sum.splits)
  have 3: "\<exists>r. fetched (snd (getShippingOptions cfg net zoneId w)) = fetched w @ [r]
        \<and> fst (getShippingOptions cfg net zoneId w) =
            (case net r of
               Inl e \<Rightarrow> Inl e
             | Inr res \<Rightarrow>
                 (case res_json res of
                    None \<Rightarrow> Inl JSONSyntaxError
                  | Some v \<Rightarrow> options_of_methods v))"
    by (rule exI[of _ "request_of cfg ''GET''
          (''shipping/zones/'' @ Number_toString zoneId @ ''/methods'') None JUndefined"])
      (simp add: getShippingOptions_run Response_json_def split: sum.splits option.splits)
  have 4: "fst (createOrder cfg (with_status code net) line_items customer_note w)
        = fst (createOrder cfg net line_items customer_note w)"
    unfolding createOrder_run by (rule with_status_cases[where f = "\<lambda>x. x"])
  have 5: "fst (createUser cfg (with_status code net) orderInfo w) = fst (createUser cfg net orderInfo w)"
    unfolding createUser_run by (rule with_status_cases[where f = "\<lambda>x. x"])
  have 6: "fst (getShippingOptions cfg (with_status code net) zoneId w)
        = fst (getShippingOptions cfg net zoneId w)"
    unfolding getShippingOptions_run
    by (rule with_status_cases[where f = "\<lambda>x. case x of Inl e \<Rightarrow> Inl e | Inr methods \<Rightarrow> options_of_methods methods"])
  from 1 2 3 4 5 6 show ?thesis by blast
qed

text \<open>
  The amended claim C2 for a remote side that answers 500 with a JSON error body, and for
  one that answers 502 with a body that is not JSON.
\<close>

theorem status_is_not_inspected_witness:
  "fst (createOrder shop (answering 500 (Some (JObj [(''code'', JStr ''internal_error'')]))) []
          ''urgent'' start) = Inr (JObj [(''code'', JStr ''internal_error'')])
   \<and> fst (createUser shop (answering 500 (Some (JObj [(''code'', JStr ''internal_error'')]))) alice
          start) = Inr (JObj [(''code'', JStr ''internal_error'')])
   \<and> fst (createOrder shop (answering 502 None) [] ''urgent'' start) = Inl JSONSyntaxError
   \<and> fst (createUser shop (answering 502 None) alice start) = Inl JSONSyntaxError
   \<and> fst (getShippingOptions shop (answering 502 None) 9 start) = Inl JSONSyntaxError"
  using status_is_not_inspected[of shop "answering 500 (Some (JObj [(''code'', JStr ''internal_error'')]))"
      "[]" "''urgent''" start alice 9 500]
    status_is_not_inspected[of shop "answering 502 None" "[]" "''urgent''" start alice 9 502]
  by (simp add: answering_def)

section \<open>Shipping options\<close>

text \<open>
  Claim C6 does not hold as stated for every JSON array. An array with a \<^verbatim>\<open>null\<close> entry
  makes the callback of \<^verbatim>\<open>filter\<close> read a property of \<^verbatim>\<open>null\<close>, so the operation raises a
  \<^verbatim>\<open>TypeError\<close>; and the filter keeps what JavaScript takes for true, so an entry whose
  \<^verbatim>\<open>enabled\<close> is the string \<^verbatim>\<open>"no"\<close>, which is not \<^verbatim>\<open>true\<close>, is returned.
\<close>

theorem null_entry_and_truthy_flag:
  "fst (getShippingOptions shop (answering 200 (Some (JArr [JNull]))) 7 start) = Inl TypeError
   \<and> fst (getShippingOptions shop
            (answering 200 (Some (JArr [JObj [(''method_id'', JStr ''pickup''),
                                              (''method_title'', JStr ''Local pickup''),
                                              (''enabled'', JStr ''no'')]]))) 7 start)
       = Inr [JObj [(''id'', JStr ''pickup''), (''title'', JStr ''Local pickup''),
                    (''prices'', JArr [JObj [(''label'', JStr ''Free''), (''amount'', JNum 0)]])]]"
  by (simp add: shipping_defs)

text \<open>
  Claim C6, as amended: for every zone id and every JSON array that the \<^verbatim>\<open>GET\<close> of
  \<^verbatim>\<open>shipping/zones/{zoneId}/methods\<close> returns, if no entry of the array is \<^verbatim>\<open>null\<close> then
  \<^verbatim>\<open>getShippingOptions\<close> returns exactly the entries whose \<^verbatim>\<open>enabled\<close> property is truthy
  (\<^verbatim>\<open>true\<close>, a number other than zero, a string that is not empty, an object or an array),
  each projected to \<^verbatim>\<open>{id: method_id, title: method_title, prices: [{label: "Free",
  amount: 0}]}\<close>, and leaves out every other entry.
\<close>

theorem getShippingOptions_filters_and_projects:
  assumes "fst (get cfg net (''shipping/zones/'' @ Number_toString zoneId @ ''/methods'') None w) = Inr res"
    and "res_json res = Some (JArr methods)"
    and "\<forall>m\<in>set methods. m \<noteq> JNull \<and> m \<noteq> JUndefined"
  shows "fst (getShippingOptions cfg net zoneId w)
           = Inr (map (\<lambda>m. JObj [(''id'', prop_value m ''method_id''),
                                 (''title'', prop_value m ''method_title''),
                                 (''prices'', JArr [JObj [(''label'', JStr ''Free''),
                                                          (''amount'', JNum 0)]])])
                   (filter (\<lambda>m. truthy (prop_value m ''enabled'')) methods))"
proof -
  have "net (request_of cfg ''GET'' (''shipping/zones/'' @ Number_toString zoneId @ ''/methods'')
               None JUndefined) = Inr res"
    using assms(1) by (simp add: get_run)
  then have "fst (getShippingOptions cfg net zoneId w) = options_of_methods (JArr methods)"
    using assms(2) by (simp add: getShippingOptions_run Response_json_def)
  then show ?thesis
    using options_of_methods_value[OF assms(3)] by (simp add: projected_def[abs_def])
qed

text \<open>
  The amended claim C6 on the example of the specification: of a flat rate that is
  enabled and a method \<^verbatim>\<open>x\<close> that is not, the flat rate alone is returned, projected.
\<close>

theorem getShippingOptions_filters_and_projects_witness:
  "fst (getShippingOptions shop
          (answering 200 (Some (JArr [JObj [(''method_id'', JStr ''flat''),
                                            (''method_title'', JStr ''Flat Rate''),
                                            (''enabled'', JBool True)],
                                      JObj [(''method_id'', JStr ''x''),
                                            (''enabled'', JBool False)]]))) 7 start)
     = Inr [JObj [(''id'', JStr ''flat''), (''title'', JStr ''Flat Rate''),
                  (''prices'', JArr [JObj [(''label'', JStr ''Free''), (''amount'', JNum 0)]])]]"
  using getShippingOptions_filters_and_projects[of shop
      "answering 200 (Some (JArr [JObj [(''method_id'', JStr ''flat''),
                                            (''method_title'', JStr ''Flat Rate''),
                                            (''enabled'', JBool True)],
                                      JObj [(''method_id'', JStr ''x''),
                                            (''enabled'', JBool False)]]))" 7 start
      "\<lparr>res_status = 200, res_json = Some (JArr [JObj [(''method_id'', JStr ''flat''),
                                            (''method_title'', JStr ''Flat Rate''),
                                            (''enabled'', JBool True)],
                                      JObj [(''method_id'', JStr ''x''),
                                            (''enabled'', JBool False)]])\<rparr>"
      "[JObj [(''method_id'', JStr ''flat''),
                                            (''method_title'', JStr ''Flat Rate''),
                                            (''enabled'', JBool True)],
                                      JObj [(''method_id'', JStr ''x''),
                                            (''enabled'', JBool False)]]"]
  by (simp add: get_run answering_def prop_value_def)

text \<open>Where the flag is a boolean, being truthy is being \<^verbatim>\<open>true\<close>.\<close>

lemma boolean_flag:
  "get_prop m ''enabled'' = Inr (JBool b) \<Longrightarrow> truthy (prop_value m ''enabled'') = b"
  by (simp add: prop_value_def)

text \<open>
  Claim C10 does not hold as stated. Of the two entries of this array only the second has
  the flag \<^verbatim>\<open>true\<close>, the first has the string \<^verbatim>\<open>"no"\<close>; the list returned has both, so its
  length is not the number of entries whose flag is \<^verbatim>\<open>true\<close>.
\<close>

theorem flag_that_says_no_is_counted:
  "fst (getShippingOptions shop
          (answering 200 (Some (JArr [JObj [(''method_id'', JStr ''pickup''), (''enabled'', JStr ''no'')],
                                      JObj [(''method_id'', JStr ''flat''), (''enabled'', JBool True)]])))
          7 start)
     = Inr [JObj [(''id'', JStr ''pickup''), (''title'', JUndefined),
                  (''prices'', JArr [JObj [(''label'', JStr ''Free''), (''amount'', JNum 0)]])],
            JObj [(''id'', JStr ''flat''), (''title'', JUndefined),
                  (''prices'', JArr [JObj [(''label'', JStr ''Free''), (''amount'', JNum 0)]])]]
   \<and> filter (\<lambda>m. get_prop m ''enabled'' = Inr (JBool True))
         [JObj [(''method_id'', JStr ''pickup''), (''enabled'', JStr ''no'')],
          JObj [(''method_id'', JStr ''flat''), (''enabled'', JBool True)]]
       = [JObj [(''method_id'', JStr ''flat''), (''enabled'', JBool True)]]"
  by (simp add: shipping_defs)

text \<open>
  Claim C10, as amended: for every remote array of methods without a \<^verbatim>\<open>null\<close> entry,
  \<^verbatim>\<open>getShippingOptions\<close> returns a list that keeps the order of the remote array (it is a
  subsequence of the projections of the remote entries), whose length is the number of
  entries whose \<^verbatim>\<open>enabled\<close> property is truthy, and so at most the length of the remote
  array.
\<close>

theorem getShippingOptions_keeps_order:
  assumes "fst (get cfg net (''shipping/zones/'' @ Number_toString zoneId @ ''/methods'') None w) = Inr res"
    and "res_json res = Some (JArr methods)"
    and "\<forall>m\<in>set methods. m \<noteq> JNull \<and> m \<noteq> JUndefined"
  shows "\<exists>opts. fst (getShippingOptions cfg net zoneId w) = Inr opts
           \<and> subseq opts (map projected methods)
           \<and> length opts = length (filter (\<lambda>m. truthy (prop_value m ''enabled'')) methods)
           \<and> length opts \<le> length methods"
proof -
  let ?kept = "filter (\<lambda>m. truthy (prop_value m ''enabled'')) methods"
  have "net (request_of cfg ''GET'' (''shipping/zones/'' @ Number_toString zoneId @ ''/methods'')
               None JUndefined) = Inr res"
    using assms(1) by (simp add: get_run)
  then have "fst (getShippingOptions cfg net zoneId w) = options_of_methods (JArr methods)"
    using assms(2) by (simp add: getShippingOptions_run Response_json_def)
  then have "fst (getShippingOptions cfg net zoneId w) = Inr (map projected ?kept)"
    using options_of_methods_value[OF assms(3)] by simp
  moreover have "subseq (map projected ?kept) (map projected methods)"
    by (simp add: subseq_map)
  moreover have "length (map projected ?kept) = length ?kept"
    by simp
  moreover have "length (map projected ?kept) \<le> length methods"
    by simp
  ultimately show ?thesis by blast
qed

text \<open>
  The amended claim C10 for three remote methods of which the first and the third are
  enabled.
\<close>

theorem getShippingOptions_keeps_order_witness:
  "\<exists>opts. fst (getShippingOptions shop
          (answering 200 (Some (JArr [flat_rate, JObj [(''enabled'', JBool False)], flat_rate])))
          7 start) = Inr opts
     \<and> subseq opts [projected flat_rate, projected (JObj [(''enabled'', JBool False)]),
                     projected flat_rate]
     \<and> length opts = 2
     \<and> length opts \<le> 3"
proof -
  let ?methods = "[flat_rate, JObj [(''enabled'', JBool False)], flat_rate]"
  let ?res = "\<lparr>res_status = 200, res_json = Some (JArr ?methods)\<rparr>"
  have answer: "fst (get shop (answering 200 (Some (JArr ?methods)))
                  (''shipping/zones/'' @ Number_toString 7 @ ''/methods'') None start) = Inr ?res"
    by (simp add: get_run answering_def)
  have body: "res_json ?res = Some (JArr ?methods)"
    by simp
  have entries: "\<forall>m\<in>set ?methods. m \<noteq> JNull \<and> m \<noteq> JUndefined"
    by (simp add: flat_rate_def)
  have enabled: "length (filter (\<lambda>m. truthy (prop_value m ''enabled'')) ?methods) = 2"
    by (simp add: prop_value_def flat_rate_def)
  from getShippingOptions_keeps_order[OF answer body entries] enabled show ?thesis
    by auto
qed

end
